theory Spec2Isabelle
  imports Complex_Main "HOL-Library.Sublist"
begin

section \<open>JavaScript values\<close>

text \<open>
  The service handles the model's reply as an untyped value (\<^verbatim>\<open>any\<close>): whatever
  \<^verbatim>\<open>JSON.parse\<close> returned, and the \<^verbatim>\<open>undefined\<close> that reading a missing property gives.
  A parsed number is a finite double, hence a rational; the program never computes with
  these numbers, it only tests them for being zero and copies them. (A literal too
  large for a double parses to an infinity, which is truthy like every other non-zero
  number; it is left out.)
  An object is the list of its own properties; \<^verbatim>\<open>JSON.parse\<close> gives each key once.
  A string is its text in UTF-8; the source's literals are ASCII, but for one album name.
\<close>

datatype jsval =
    JUndefined
  | JNull
  | JBool bool
  | JNum rat
  | JStr string
  | JArr "jsval list"
  | JObj "(string \<times> jsval) list"

text \<open>The values an exception of this program can carry.\<close>

datatype error =
    NetworkError
  | ApiError nat string
  | InvalidJsonBody
  | TypeError
  | SyntaxError
  | URIError
  | ThrownUndefined
  | Error string

text \<open>Truthiness, as \<^verbatim>\<open>if (v)\<close>, \<^verbatim>\<open>!v\<close> and \<^verbatim>\<open>v || d\<close> test it.\<close>

fun truthy :: "jsval \<Rightarrow> bool" where
  "truthy JUndefined = False"
| "truthy JNull = False"
| "truthy (JBool b) = b"
| "truthy (JNum n) = (n \<noteq> 0)"
| "truthy (JStr s) = (s \<noteq> [])"
| "truthy (JArr xs) = True"
| "truthy (JObj kvs) = True"

text \<open>\<^verbatim>\<open>v || d\<close>\<close>

definition orElse :: "jsval \<Rightarrow> jsval \<Rightarrow> jsval" where
  "orElse v d = (if truthy v then v else d)"

fun nullish :: "jsval \<Rightarrow> bool" where
  "nullish JUndefined = True"
| "nullish JNull = True"
| "nullish v = False"

text \<open>
  \<^verbatim>\<open>v.k\<close> on a value that is neither \<^verbatim>\<open>null\<close> nor \<^verbatim>\<open>undefined\<close>. The program reads only
  names that no prototype of a parsed value defines (title, chords, message, ...), so
  on an array, a string, a number or a boolean the read gives \<^verbatim>\<open>undefined\<close>.
\<close>

fun readProp :: "jsval \<Rightarrow> string \<Rightarrow> jsval" where
  "readProp (JObj kvs) k = (case map_of kvs k of Some v \<Rightarrow> v | None \<Rightarrow> JUndefined)"
| "readProp v k = JUndefined"

text \<open>\<^verbatim>\<open>v.k\<close>: a TypeError on \<^verbatim>\<open>null\<close> and \<^verbatim>\<open>undefined\<close>.\<close>

definition getProp :: "jsval \<Rightarrow> string \<Rightarrow> error + jsval" where
  "getProp v k = (if nullish v then Inl TypeError else Inr (readProp v k))"

text \<open>\<^verbatim>\<open>v?.k\<close>\<close>

definition optProp :: "jsval \<Rightarrow> string \<Rightarrow> jsval" where
  "optProp v k = (if nullish v then JUndefined else readProp v k)"

text \<open>
  \<^verbatim>\<open>v?.[0]\<close>. On a string it is the first character, of which the program only reads
  the property \<^verbatim>\<open>message\<close>, which no string has.
\<close>

fun optIndex0 :: "jsval \<Rightarrow> jsval" where
  "optIndex0 (JArr []) = JUndefined"
| "optIndex0 (JArr (x # xs)) = x"
| "optIndex0 (JObj kvs) = readProp (JObj kvs) ''0''"
| "optIndex0 (JStr []) = JUndefined"
| "optIndex0 (JStr (c # cs)) = JStr [c]"
| "optIndex0 v = JUndefined"

text \<open>Sequencing of computations that may throw.\<close>

definition bindE :: "error + 'a \<Rightarrow> ('a \<Rightarrow> error + 'b) \<Rightarrow> error + 'b" where
  "bindE m f = (case m of Inl e \<Rightarrow> Inl e | Inr x \<Rightarrow> f x)"

text \<open>\<^verbatim>\<open>xs.map(f)\<close> with a callback that may throw: the first exception ends the map.\<close>

fun mapE :: "('a \<Rightarrow> error + 'b) \<Rightarrow> 'a list \<Rightarrow> error + 'b list" where
  "mapE f [] = Inr []"
| "mapE f (x # xs) = bindE (f x) (\<lambda>y. bindE (mapE f xs) (\<lambda>ys. Inr (y # ys)))"

text \<open>\<^verbatim>\<open>s.includes(t)\<close>: \<open>t\<close> occurs in \<open>s\<close> as a contiguous run.\<close>

fun includesStr :: "string \<Rightarrow> string \<Rightarrow> bool" where
  "includesStr [] t = (t = [])"
| "includesStr (c # cs) t = (prefix t (c # cs) \<or> includesStr cs t)"

section \<open>The environment\<close>

text \<open>
  What \<^verbatim>\<open>fetch\<close> resolves to: a rejection (no network), or a response with its
  \<^verbatim>\<open>ok\<close> flag, status, status text and the outcome of \<^verbatim>\<open>response.json()\<close>
  (\<open>None\<close> when the body is not JSON).
\<close>

datatype fetch_result =
    FetchRejected
  | Response bool nat string "jsval option"

text \<open>
  The built-in functions of the JavaScript runtime, the transport and the process
  environment are parameters of the model. \<open>fetch env n\<close> is what the \<open>n\<close>-th request
  of a run resolves to, so that \<open>env\<close> ranges over every behaviour of the endpoint.
  \<open>JSON_parse\<close> gives \<open>None\<close> for a SyntaxError and \<open>encodeURIComponent\<close> gives \<open>None\<close>
  for a URIError (a lone surrogate). \<open>toStringJS\<close> is the conversion a template
  literal applies to an interpolated value.
\<close>

record env =
  toLowerCase :: "string \<Rightarrow> string"
  trim :: "string \<Rightarrow> string"
  JSON_parse :: "string \<Rightarrow> jsval option"
  encodeURIComponent :: "jsval \<Rightarrow> string option"
  toStringJS :: "jsval \<Rightarrow> string"
  fetch :: "nat \<Rightarrow> fetch_result"
  EXPO_PUBLIC_AZURE_OPENAI_API_KEY :: "string option"

text \<open>
  The prompts are fixed templates with values interpolated; a prompt is modelled by the
  template it comes from and the interpolated values. Building one cannot throw.
\<close>

datatype prompt =
    SearchPrompt string
  | ChordPrompt jsval jsval
  | TutorialPrompt jsval jsval jsval jsval jsval "jsval list" jsval jsval

text \<open>What a run does to the outside, in order.\<close>

datatype event =
    Fetch prompt nat
  | SetTimeout nat
  | ConsoleWarn string
  | WarnAttemptFailed nat error
  | ConsoleError string error
  | ConsoleLog jsval
  | Alert string string

record world =
  fetches :: nat
  trace :: "event list"

definition emit :: "event \<Rightarrow> world \<Rightarrow> world" where
  "emit ev w = w\<lparr>trace := trace w @ [ev]\<rparr>"

section \<open>The completion client\<close>

text \<open>
  \<^verbatim>\<open>content.replace(/```json\n?/g, "")\<close>: every match of the marker, with the line feed
  that may follow it, is deleted, scanning from the left. The counter is the number
  of characters of the current match still to be dropped.
\<close>

fun dropMatches :: "string \<Rightarrow> nat \<Rightarrow> string \<Rightarrow> string" where
  "dropMatches pat k [] = []"
| "dropMatches pat (Suc k) (c # cs) = dropMatches pat k cs"
| "dropMatches pat 0 (c # cs) =
     (if prefix pat (c # cs)
      then dropMatches pat
             (length pat - 1 + (if prefix [CHR 0x0A] (drop (length pat) (c # cs)) then 1 else 0)) cs
      else c # dropMatches pat 0 cs)"

definition fence :: string where
  "fence = [CHR 0x60, CHR 0x60, CHR 0x60]"

definition cleanContent :: "env \<Rightarrow> string \<Rightarrow> string" where
  "cleanContent env content =
     trim env (dropMatches fence 0 (dropMatches (fence @ ''json'') 0 content))"

text \<open>\<^verbatim>\<open>data.choices?.[0]?.message?.content\<close>\<close>

definition extractContent :: "jsval \<Rightarrow> error + jsval" where
  "extractContent data =
     bindE (getProp data ''choices'')
       (\<lambda>choices. Inr (optProp (optProp (optIndex0 choices) ''message'') ''content''))"

text \<open>
  The body of the \<^verbatim>\<open>try\<close> block of one attempt, after \<^verbatim>\<open>fetch\<close> has settled: the value
  the attempt returns, or the exception it throws. A content that is truthy but not a
  string has no \<^verbatim>\<open>replace\<close> method.
\<close>

definition attemptResult :: "env \<Rightarrow> fetch_result \<Rightarrow> error + jsval" where
  "attemptResult env r =
     (case r of
        FetchRejected \<Rightarrow> Inl NetworkError
      | Response ok status statusText body \<Rightarrow>
          if \<not> ok then Inl (ApiError status statusText)
          else (case body of
                  None \<Rightarrow> Inl InvalidJsonBody
                | Some data \<Rightarrow>
                    bindE (extractContent data)
                      (\<lambda>content.
                         if \<not> truthy content then Inl (Error ''No content in Azure OpenAI response'')
                         else (case content of
                                 JStr s \<Rightarrow>
                                   (case JSON_parse env (cleanContent env s) of
                                      None \<Rightarrow> Inl SyntaxError
                                    | Some v \<Rightarrow> Inr v)
                               | _ \<Rightarrow> Inl TypeError))))"

definition maxRetries :: nat where
  "maxRetries = 3"

text \<open>
  The \<^verbatim>\<open>for\<close> loop of \<^verbatim>\<open>callAzureOpenAI\<close>, from a given value of \<^verbatim>\<open>attempt\<close>, with the
  \<^verbatim>\<open>lastError\<close> assigned so far. After the loop \<^verbatim>\<open>lastError\<close> is thrown.
\<close>

function retryLoop ::
  "env \<Rightarrow> prompt \<Rightarrow> nat \<Rightarrow> nat \<Rightarrow> error option \<Rightarrow> world \<Rightarrow> (error + jsval) \<times> world" where
  "retryLoop env p maxTokens attempt lastError w =
     (if attempt \<le> maxRetries then
        (let w1 = emit (Fetch p maxTokens) (w\<lparr>fetches := Suc (fetches w)\<rparr>) in
         case attemptResult env (fetch env (fetches w)) of
           Inr v \<Rightarrow> (Inr v, w1)
         | Inl e \<Rightarrow>
             (let w2 = emit (WarnAttemptFailed attempt e) w1;
                  w3 = (if attempt < maxRetries
                        then emit (SetTimeout (1000 * 2 ^ (attempt - 1))) w2
                        else w2)
              in retryLoop env p maxTokens (attempt + 1) (Some e) w3))
      else (case lastError of
              Some e \<Rightarrow> (Inl e, w)
            | None \<Rightarrow> (Inl ThrownUndefined, w)))"
  by pat_completeness auto
termination
  by (relation "measure (\<lambda>(env, p, maxTokens, attempt, lastError, w). Suc maxRetries - attempt)") auto

declare retryLoop.simps [simp del]

definition callAzureOpenAI :: "env \<Rightarrow> prompt \<Rightarrow> nat \<Rightarrow> world \<Rightarrow> (error + jsval) \<times> world" where
  "callAzureOpenAI env p maxTokens w = retryLoop env p maxTokens 1 None w"


section \<open>Song search\<close>

record SongInfo =
  title :: jsval
  artist :: jsval
  duration :: jsval
  thumbnail :: string
  url :: string
  album :: jsval
  year :: jsval
  genre :: jsval
  popularity :: jsval
  description :: jsval

text \<open>
  \<^verbatim>\<open>process.env.EXPO_PUBLIC_AZURE_OPENAI_API_KEY || "YOUR_AZURE_OPENAI_API_KEY"\<close>
\<close>

definition placeholderKey :: string where
  "placeholderKey = ''YOUR_AZURE_OPENAI_API_KEY''"

definition AZURE_OPENAI_API_KEY :: "env \<Rightarrow> string" where
  "AZURE_OPENAI_API_KEY env =
     (case EXPO_PUBLIC_AZURE_OPENAI_API_KEY env of
        None \<Rightarrow> placeholderKey
      | Some k \<Rightarrow> if k = [] then placeholderKey else k)"

text \<open>\<^verbatim>\<open>!AZURE_OPENAI_API_KEY || AZURE_OPENAI_API_KEY === "YOUR_AZURE_OPENAI_API_KEY"\<close>\<close>

definition keyNotConfigured :: "env \<Rightarrow> bool" where
  "keyNotConfigured env =
     (AZURE_OPENAI_API_KEY env = [] \<or> AZURE_OPENAI_API_KEY env = placeholderKey)"

definition encodeE :: "env \<Rightarrow> jsval \<Rightarrow> error + string" where
  "encodeE env v = (case encodeURIComponent env v of None \<Rightarrow> Inl URIError | Some s \<Rightarrow> Inr s)"

text \<open>
  The callback of \<^verbatim>\<open>response.map\<close> in \<^verbatim>\<open>searchSongs\<close>: one item of the model's array
  becomes one candidate. Reading \<^verbatim>\<open>song.title\<close> throws when the item is \<^verbatim>\<open>null\<close>.
\<close>

definition toSongInfo :: "env \<Rightarrow> jsval \<Rightarrow> error + SongInfo" where
  "toSongInfo env song =
     bindE (getProp song ''title'') (\<lambda>t.
     bindE (getProp song ''artist'') (\<lambda>a.
     bindE (getProp song ''duration'') (\<lambda>d.
     bindE (encodeE env a) (\<lambda>ea.
     bindE (encodeE env t) (\<lambda>et.
       Inr \<lparr>title = t,
            artist = a,
            duration = orElse d (JNum 180),
            thumbnail = ''https://via.placeholder.com/480x360/1e293b/white?text='' @ ea @ ''+-+'' @ et,
            url = ''song://'' @ ea @ ''-'' @ et,
            album = readProp song ''album'',
            year = readProp song ''year'',
            genre = readProp song ''genre'',
            popularity = readProp song ''popularity'',
            description = readProp song ''description''\<rparr>)))))"

subsection \<open>The fallback catalog\<close>

definition mockSongs :: "SongInfo list" where
  "mockSongs =
     [\<lparr>title = JStr ''Perfect'',
       artist = JStr ''Ed Sheeran'',
       duration = JNum 263,
       thumbnail = ''https://via.placeholder.com/480x360/1e293b/white?text=Ed+Sheeran+-+Perfect'',
       url = ''song://Ed-Sheeran-Perfect'',
       album = JStr ([CHR 0xE0, CHR 0xB8, CHR 0xA3, CHR 0xE0, CHR 0xB8, CHR 0x97] @ '' (Divide)''),
       year = JNum 2017,
       genre = JStr ''Pop'',
       popularity = JStr ''Very High'',
       description = JStr ''Romantic ballad, one of Ed Sheeran's biggest hits''\<rparr>,
      \<lparr>title = JStr ''Wonderwall'',
       artist = JStr ''Oasis'',
       duration = JNum 258,
       thumbnail = ''https://via.placeholder.com/480x360/1e293b/white?text=Oasis+-+Wonderwall'',
       url = ''song://Oasis-Wonderwall'',
       album = JStr ''(What's the Story) Morning Glory?'',
       year = JNum 1995,
       genre = JStr ''Rock'',
       popularity = JStr ''Very High'',
       description = JStr ''Classic British rock anthem, perfect for beginners''\<rparr>,
      \<lparr>title = JStr ''Shape of You'',
       artist = JStr ''Ed Sheeran'',
       duration = JNum 233,
       thumbnail = ''https://via.placeholder.com/480x360/1e293b/white?text=Ed+Sheeran+-+Shape+of+You'',
       url = ''song://Ed-Sheeran-Shape-of-You'',
       album = JStr ([CHR 0xE0, CHR 0xB8, CHR 0xA3, CHR 0xE0, CHR 0xB8, CHR 0x97] @ '' (Divide)''),
       year = JNum 2017,
       genre = JStr ''Pop'',
       popularity = JStr ''Very High'',
       description = JStr ''Upbeat pop song with simple chord progression''\<rparr>,
      \<lparr>title = JStr ''Let It Be'',
       artist = JStr ''The Beatles'',
       duration = JNum 243,
       thumbnail = ''https://via.placeholder.com/480x360/1e293b/white?text=The+Beatles+-+Let+It+Be'',
       url = ''song://The-Beatles-Let-It-Be'',
       album = JStr ''Let It Be'',
       year = JNum 1970,
       genre = JStr ''Rock'',
       popularity = JStr ''Very High'',
       description = JStr ''Timeless classic with simple chord progression''\<rparr>,
      \<lparr>title = JStr ''House of the Rising Sun'',
       artist = JStr ''The Animals'',
       duration = JNum 272,
       thumbnail = ''https://via.placeholder.com/480x360/1e293b/white?text=The+Animals+-+House+of+the+Rising+Sun'',
       url = ''song://The-Animals-House-of-the-Rising-Sun'',
       album = JStr ''The Animals'',
       year = JNum 1964,
       genre = JStr ''Folk Rock'',
       popularity = JStr ''High'',
       description = JStr ''Classic fingerpicking song, great for intermediate players''\<rparr>]"

text \<open>\<^verbatim>\<open>v.toLowerCase().includes(query.toLowerCase())\<close>: only a string has the method.\<close>

definition lowerIncludes :: "env \<Rightarrow> jsval \<Rightarrow> string \<Rightarrow> error + bool" where
  "lowerIncludes env v query =
     (case v of
        JStr s \<Rightarrow> Inr (includesStr (toLowerCase env s) (toLowerCase env query))
      | _ \<Rightarrow> Inl TypeError)"

text \<open>The callback of \<^verbatim>\<open>mockSongs.filter\<close>; \<^verbatim>\<open>song.genre?.\<close> skips an absent genre.\<close>

definition songMatches :: "env \<Rightarrow> string \<Rightarrow> SongInfo \<Rightarrow> error + bool" where
  "songMatches env query song =
     bindE (lowerIncludes env (title song) query) (\<lambda>t.
       if t then Inr True
       else bindE (lowerIncludes env (artist song) query) (\<lambda>a.
         if a then Inr True
         else if nullish (genre song) then Inr False
         else lowerIncludes env (genre song) query))"

fun filterE :: "('a \<Rightarrow> error + bool) \<Rightarrow> 'a list \<Rightarrow> error + 'a list" where
  "filterE f [] = Inr []"
| "filterE f (x # xs) =
     bindE (f x) (\<lambda>b. bindE (filterE f xs) (\<lambda>ys. Inr (if b then x # ys else ys)))"

definition getMockSongSearchResults :: "env \<Rightarrow> string \<Rightarrow> error + SongInfo list" where
  "getMockSongSearchResults env query =
     bindE (filterE (songMatches env query) mockSongs) (\<lambda>filtered.
       Inr (if length filtered > 0 then filtered else take 3 mockSongs))"

subsection \<open>searchSongs\<close>

text \<open>
  The \<^verbatim>\<open>try\<close> block of \<^verbatim>\<open>searchSongs\<close>. When the reply is not an array the block ends
  without a \<^verbatim>\<open>return\<close>, and the function resolves with \<^verbatim>\<open>undefined\<close>: \<open>Inr None\<close>.
\<close>

text \<open>The first statement of the block: a warning and an alert, and no \<^verbatim>\<open>return\<close>.\<close>

definition configurationCheck :: "env \<Rightarrow> world \<Rightarrow> world" where
  "configurationCheck env w =
     (if keyNotConfigured env
      then emit (Alert ''Warning'' ''Azure OpenAI API key not configured'')
             (emit (ConsoleWarn ''Azure OpenAI API key not configured'') w)
      else w)"

definition searchSongs_try ::
  "env \<Rightarrow> string \<Rightarrow> world \<Rightarrow> (error + SongInfo list option) \<times> world" where
  "searchSongs_try env query w =
     (case callAzureOpenAI env (SearchPrompt query) 2000 (configurationCheck env w) of
        (Inl e, w2) \<Rightarrow> (Inl e, w2)
      | (Inr response, w2) \<Rightarrow>
          (case response of
             JArr items \<Rightarrow>
               (case mapE (toSongInfo env) items of
                  Inl e \<Rightarrow> (Inl e, w2)
                | Inr result \<Rightarrow> (Inr (Some result), emit (ConsoleLog response) w2))
           | _ \<Rightarrow> (Inr None, w2)))"

text \<open>The \<^verbatim>\<open>catch\<close> block logs the error and returns the fallback result.\<close>

definition searchSongs ::
  "env \<Rightarrow> string \<Rightarrow> world \<Rightarrow> (error + SongInfo list option) \<times> world" where
  "searchSongs env query w =
     (case searchSongs_try env query w of
        (Inr v, w') \<Rightarrow> (Inr v, w')
      | (Inl e, w') \<Rightarrow>
          (bindE (getMockSongSearchResults env query) (\<lambda>songs. Inr (Some songs)),
           emit (ConsoleError ''Error searching songs with Azure OpenAI:'' e) w'))"

subsection \<open>The variant with a deployment name\<close>

text \<open>
  The second version of the service reads the key without a default, returns the
  fallback result at once when the key is not configured, and throws when the reply is
  not an array. Its catalog has three songs and its filter does not look at the genre.
  Its \<^verbatim>\<open>callAzureOpenAI\<close> has the same loop.
\<close>

definition keyNotConfigured_alt :: "env \<Rightarrow> bool" where
  "keyNotConfigured_alt env =
     (case EXPO_PUBLIC_AZURE_OPENAI_API_KEY env of
        None \<Rightarrow> True
      | Some k \<Rightarrow> k = [] \<or> k = placeholderKey)"

definition mockSongs_alt :: "SongInfo list" where
  "mockSongs_alt =
     [\<lparr>title = JStr ''Perfect'',
       artist = JStr ''Ed Sheeran'',
       duration = JNum 263,
       thumbnail = ''https://via.placeholder.com/480x360/1e293b/white?text=Ed+Sheeran+-+Perfect'',
       url = ''song://Ed-Sheeran-Perfect'',
       album = JStr ([CHR 0xC3, CHR 0xB7] @ '' (Divide)''),
       year = JNum 2017,
       genre = JStr ''Pop'',
       popularity = JStr ''Very High'',
       description = JStr ''Romantic ballad, one of Ed Sheeran's biggest hits''\<rparr>,
      \<lparr>title = JStr ''Wonderwall'',
       artist = JStr ''Oasis'',
       duration = JNum 258,
       thumbnail = ''https://via.placeholder.com/480x360/1e293b/white?text=Oasis+-+Wonderwall'',
       url = ''song://Oasis-Wonderwall'',
       album = JStr ''(What's the Story) Morning Glory?'',
       year = JNum 1995,
       genre = JStr ''Rock'',
       popularity = JStr ''Very High'',
       description = JStr ''Classic British rock anthem, perfect for beginners''\<rparr>,
      \<lparr>title = JStr ''Shape of You'',
       artist = JStr ''Ed Sheeran'',
       duration = JNum 233,
       thumbnail = ''https://via.placeholder.com/480x360/1e293b/white?text=Ed+Sheeran+-+Shape+of+You'',
       url = ''song://Ed-Sheeran-Shape-of-You'',
       album = JStr ([CHR 0xC3, CHR 0xB7] @ '' (Divide)''),
       year = JNum 2017,
       genre = JStr ''Pop'',
       popularity = JStr ''Very High'',
       description = JStr ''Upbeat pop song with simple chord progression''\<rparr>]"

definition songMatches_alt :: "env \<Rightarrow> string \<Rightarrow> SongInfo \<Rightarrow> error + bool" where
  "songMatches_alt env query song =
     bindE (lowerIncludes env (title song) query) (\<lambda>t.
       if t then Inr True else lowerIncludes env (artist song) query)"

definition getMockSongSearchResults_alt :: "env \<Rightarrow> string \<Rightarrow> error + SongInfo list" where
  "getMockSongSearchResults_alt env query =
     bindE (filterE (songMatches_alt env query) mockSongs_alt) (\<lambda>filtered.
       Inr (if length filtered > 0 then filtered else take 3 mockSongs_alt))"

definition searchSongs_alt_try ::
  "env \<Rightarrow> string \<Rightarrow> world \<Rightarrow> (error + SongInfo list) \<times> world" where
  "searchSongs_alt_try env query w =
     (if keyNotConfigured_alt env
      then (getMockSongSearchResults_alt env query,
            emit (ConsoleWarn ''Azure OpenAI API key not configured, using mock data'') w)
      else (case callAzureOpenAI env (SearchPrompt query) 2000 w of
              (Inl e, w2) \<Rightarrow> (Inl e, w2)
            | (Inr response, w2) \<Rightarrow>
                (case response of
                   JArr items \<Rightarrow> (mapE (toSongInfo env) items, w2)
                 | _ \<Rightarrow> (Inl (Error ''No valid response from Azure OpenAI''), w2))))"

definition searchSongs_alt ::
  "env \<Rightarrow> string \<Rightarrow> world \<Rightarrow> (error + SongInfo list) \<times> world" where
  "searchSongs_alt env query w =
     (case searchSongs_alt_try env query w of
        (Inr v, w') \<Rightarrow> (Inr v, w')
      | (Inl e, w') \<Rightarrow>
          (getMockSongSearchResults_alt env query,
           emit (ConsoleError ''Error searching songs with Azure OpenAI:'' e) w'))"

section \<open>Chord analysis\<close>

record ChordProgression =
  time :: jsval
  chord :: jsval
  duration :: jsval
  lyricLine :: jsval
  "section" :: jsval

text \<open>\<^verbatim>\<open>Omit<ChordAnalysisResult, "songInfo">\<close>, and the full result that adds the song.\<close>

record ChordAnalysis =
  chords :: "ChordProgression list"
  key :: jsval
  tempo :: jsval
  difficulty :: jsval
  capo :: jsval
  tuning :: jsval
  strummingPattern :: jsval
  timeSignature :: jsval
  sections :: jsval
  songStructure :: jsval
  alternativeCapo :: jsval

record ChordAnalysisResult = ChordAnalysis +
  songInfo :: SongInfo

definition strs :: "string list \<Rightarrow> jsval" where
  "strs xs = JArr (map JStr xs)"

text \<open>A chord literal of the hand-written progressions.\<close>

definition chordLine :: "rat \<Rightarrow> string \<Rightarrow> rat \<Rightarrow> string \<Rightarrow> string \<Rightarrow> ChordProgression" where
  "chordLine t c d l s =
     \<lparr>time = JNum t, chord = JStr c, duration = JNum d, lyricLine = JStr l, section = JStr s\<rparr>"

subsection \<open>The chord fallback\<close>

definition perfectProgression :: ChordAnalysis where
  "perfectProgression =
     \<lparr>chords =
        [chordLine 0 ''G'' 8 ''I found a love for me'' ''verse'',
         chordLine 8 ''Em'' 8 ''Darling, just dive right in'' ''verse'',
         chordLine 16 ''C'' 8 ''Well, I found a girl beautiful and sweet'' ''verse'',
         chordLine 24 ''D'' 8 ''I never knew you were the someone waiting for me'' ''verse'',
         chordLine 32 ''Em'' 4 ''Baby, I'm dancing in the dark'' ''chorus'',
         chordLine 36 ''C'' 4 ''with you between my arms'' ''chorus'',
         chordLine 40 ''G'' 4 ''Barefoot on the grass'' ''chorus'',
         chordLine 44 ''D'' 4 ''listening to our favourite song'' ''chorus''],
      key = JStr ''G Major'',
      tempo = JNum 63,
      difficulty = JStr ''Beginner'',
      capo = JNum 0,
      tuning = JStr ''Standard (E-A-D-G-B-E)'',
      strummingPattern = JStr ''D-D-U-U-D-U'',
      timeSignature = JStr ''4/4'',
      sections = JObj [(''verse'', strs [''G'', ''Em'', ''C'', ''D'']),
                       (''chorus'', strs [''Em'', ''C'', ''G'', ''D''])],
      songStructure = JUndefined,
      alternativeCapo = JUndefined\<rparr>"

definition wonderwallProgression :: ChordAnalysis where
  "wonderwallProgression =
     \<lparr>chords =
        [chordLine 0 ''Em7'' 4 ''Today is gonna be the day'' ''verse'',
         chordLine 4 ''G'' 4 ''that they're gonna throw it back to you'' ''verse'',
         chordLine 8 ''D'' 4 ''By now you should've somehow'' ''verse'',
         chordLine 12 ''C'' 4 ''realized what you gotta do'' ''verse''],
      key = JStr ''G Major'',
      tempo = JNum 87,
      difficulty = JStr ''Beginner'',
      capo = JNum 0,
      tuning = JStr ''Standard (E-A-D-G-B-E)'',
      strummingPattern = JStr ''D-D-U-U-D-U'',
      timeSignature = JStr ''4/4'',
      sections = JObj [(''verse'', strs [''Em7'', ''G'', ''D'', ''C'']),
                       (''chorus'', strs [''C'', ''D'', ''G'', ''Em''])],
      songStructure = JUndefined,
      alternativeCapo = JUndefined\<rparr>"

definition commonProgressions :: "(string \<times> ChordAnalysis) list" where
  "commonProgressions =
     [(''perfect'', perfectProgression), (''wonderwall'', wonderwallProgression)]"

definition defaultProgression :: ChordAnalysis where
  "defaultProgression =
     \<lparr>chords =
        [chordLine 0 ''C'' 4 ''First line of the song'' ''verse'',
         chordLine 4 ''G'' 4 ''Second line continues'' ''verse'',
         chordLine 8 ''Am'' 4 ''Third line with emotion'' ''verse'',
         chordLine 12 ''F'' 4 ''Fourth line completes the thought'' ''verse''],
      key = JStr ''C Major'',
      tempo = JNum 120,
      difficulty = JStr ''Beginner'',
      capo = JNum 0,
      tuning = JStr ''Standard (E-A-D-G-B-E)'',
      strummingPattern = JStr ''D-D-U-U-D-U'',
      timeSignature = JStr ''4/4'',
      sections = JObj [(''verse'', strs [''C'', ''G'', ''Am'', ''F'']),
                       (''chorus'', strs [''F'', ''C'', ''G'', ''Am''])],
      songStructure = JUndefined,
      alternativeCapo = JUndefined\<rparr>"

text \<open>
  \<^verbatim>\<open>Object.keys(commonProgressions).find((key) => songKey.includes(key))\<close> takes the
  first key, in the order of the table, that the lowered title contains.
  \<^verbatim>\<open>songInfo.title.toLowerCase()\<close> throws when the title is not a string.
\<close>

definition getEnhancedMockChordAnalysis :: "env \<Rightarrow> SongInfo \<Rightarrow> error + ChordAnalysis" where
  "getEnhancedMockChordAnalysis env song =
     (case title song of
        JStr t \<Rightarrow>
          (let songKey = toLowerCase env t in
           case find (\<lambda>key. includesStr songKey key) (map fst commonProgressions) of
             Some matchedSong \<Rightarrow>
               (case map_of commonProgressions matchedSong of
                  Some progression \<Rightarrow> Inr progression
                | None \<Rightarrow> Inl TypeError)
           | None \<Rightarrow> Inr defaultProgression)
      | _ \<Rightarrow> Inl TypeError)"

subsection \<open>Normalizing the model's analysis\<close>

text \<open>The callback of \<^verbatim>\<open>chords.map\<close>: reading \<^verbatim>\<open>chord.time\<close> throws on \<^verbatim>\<open>null\<close>.\<close>

definition normalizeChord :: "jsval \<Rightarrow> error + ChordProgression" where
  "normalizeChord c =
     bindE (getProp c ''time'') (\<lambda>t.
       Inr \<lparr>time = orElse t (JNum 0),
            chord = orElse (readProp c ''chord'') (JStr ''C''),
            duration = orElse (readProp c ''duration'') (JNum 4),
            lyricLine = orElse (readProp c ''lyricLine'') (JStr []),
            section = orElse (readProp c ''section'') (JStr ''verse'')\<rparr>)"

text \<open>
  The block of \<^verbatim>\<open>analyzeChordsWithAzureAI\<close> guarded by \<^verbatim>\<open>if (response)\<close>. Only an array
  has a \<^verbatim>\<open>map\<close> method that can be called: on any other truthy value of
  \<^verbatim>\<open>response.chords\<close> the call \<^verbatim>\<open>chords.map(...)\<close> throws a TypeError.
\<close>

definition normalizeChordAnalysis :: "jsval \<Rightarrow> error + ChordAnalysis" where
  "normalizeChordAnalysis response =
     bindE (getProp response ''chords'') (\<lambda>c.
      case orElse c (JArr []) of
        JArr items \<Rightarrow>
          bindE (mapE normalizeChord items) (\<lambda>cs.
            Inr \<lparr>chords = cs,
                 key = orElse (readProp response ''key'') (JStr ''C Major''),
                 tempo = orElse (readProp response ''tempo'') (JNum 120),
                 difficulty = orElse (readProp response ''difficulty'') (JStr ''Beginner''),
                 capo = orElse (readProp response ''capo'') (JNum 0),
                 tuning = orElse (readProp response ''tuning'') (JStr ''Standard (E-A-D-G-B-E)''),
                 strummingPattern = orElse (readProp response ''strummingPattern'') (JStr ''D-D-U-U-D-U''),
                 timeSignature = orElse (readProp response ''timeSignature'') (JStr ''4/4''),
                 sections = orElse (readProp response ''sections'')
                              (JObj [(''verse'', strs [''C'', ''G'', ''Am'', ''F''])]),
                 songStructure = orElse (readProp response ''songStructure'') (strs [''verse'', ''chorus'']),
                 alternativeCapo = readProp response ''alternativeCapo''\<rparr>)
      | _ \<Rightarrow> Inl TypeError)"

text \<open>The \<^verbatim>\<open>try\<close> block of \<^verbatim>\<open>analyzeChordsWithAzureAI\<close>, given the outcome of the call.\<close>

definition analyzeChords_try :: "error + jsval \<Rightarrow> error + ChordAnalysis" where
  "analyzeChords_try r =
     bindE r (\<lambda>response.
       if truthy response then normalizeChordAnalysis response
       else Inl (Error ''Invalid response from Azure OpenAI''))"

definition analyzeChordsWithAzureAI ::
  "env \<Rightarrow> SongInfo \<Rightarrow> world \<Rightarrow> (error + ChordAnalysis) \<times> world" where
  "analyzeChordsWithAzureAI env song w =
     (case callAzureOpenAI env (ChordPrompt (title song) (artist song)) 2500 w of
        (r, w1) \<Rightarrow>
          (case analyzeChords_try r of
             Inr a \<Rightarrow> (Inr a, w1)
           | Inl e \<Rightarrow>
               (getEnhancedMockChordAnalysis env song,
                emit (ConsoleError ''Error analyzing chords with Azure OpenAI:'' e) w1)))"

section \<open>Tutorial generation\<close>

record GuitarTutorial =
  overview :: jsval
  difficulty :: jsval
  estimatedTime :: jsval
  steps :: jsval
  practiceNotes :: jsval
  requirements :: jsval
  chordDiagrams :: jsval
  playingTips :: jsval
  performanceTips :: jsval

record FullAnalysisResult =
  analysis :: ChordAnalysisResult
  tutorial :: GuitarTutorial

text \<open>
  \<^verbatim>\<open>[...new Set(chordAnalysis.chords.map((c) => c.chord))]\<close>: the chords in the order of
  their first occurrence. A set compares primitive values by value and objects by
  identity, and two parsed objects are never the same object.
\<close>

fun primitive :: "jsval \<Rightarrow> bool" where
  "primitive (JArr xs) = False"
| "primitive (JObj kvs) = False"
| "primitive v = True"

definition sameValueZero :: "jsval \<Rightarrow> jsval \<Rightarrow> bool" where
  "sameValueZero a b = (primitive a \<and> a = b)"

definition setAdd :: "jsval list \<Rightarrow> jsval \<Rightarrow> jsval list" where
  "setAdd seen x = (if list_ex (\<lambda>y. sameValueZero y x) seen then seen else seen @ [x])"

definition uniqueChordsOf :: "ChordAnalysis \<Rightarrow> jsval list" where
  "uniqueChordsOf chordAnalysis = foldl setAdd [] (map chord (chords chordAnalysis))"

subsection \<open>The tutorial fallback\<close>

fun joinWith :: "string \<Rightarrow> string list \<Rightarrow> string" where
  "joinWith sep [] = []"
| "joinWith sep [x] = x"
| "joinWith sep (x # y # ys) = x @ sep @ joinWith sep (y # ys)"

text \<open>
  A chord diagram of the source is one string in which the six rows are separated by
  the two characters backslash and n.
\<close>

definition tab :: "string list \<Rightarrow> jsval" where
  "tab rows = JStr (joinWith [CHR 0x5C, CHR ''n''] rows)"

definition tutorialStep ::
  "rat \<Rightarrow> string \<Rightarrow> string \<Rightarrow> jsval \<Rightarrow> string list \<Rightarrow> string list \<Rightarrow> rat \<Rightarrow> string list \<Rightarrow> jsval" where
  "tutorialStep n t d cs techniques tips practiceTime commonMistakes =
     JObj [(''step'', JNum n),
           (''title'', JStr t),
           (''description'', JStr d),
           (''chords'', cs),
           (''techniques'', strs techniques),
           (''tips'', strs tips),
           (''practiceTime'', JNum practiceTime),
           (''commonMistakes'', strs commonMistakes)]"

text \<open>\<^verbatim>\<open>chordAnalysis.difficulty.toLowerCase()\<close> throws when the difficulty is not a string.\<close>

definition getEnhancedMockTutorial :: "env \<Rightarrow> SongInfo \<Rightarrow> ChordAnalysis \<Rightarrow> error + GuitarTutorial" where
  "getEnhancedMockTutorial env song chordAnalysis =
     (let uniqueChords = uniqueChordsOf chordAnalysis in
      case ChordAnalysis.difficulty chordAnalysis of
        JStr d \<Rightarrow>
          Inr \<lparr>overview = JStr
                 ([CHR 0x22] @ toStringJS env (title song) @ [CHR 0x22] @ '' by ''
                  @ toStringJS env (artist song)
                  @ '' is an excellent song for guitar players. This song is in the key of ''
                  @ toStringJS env (key chordAnalysis)
                  @ '' and features ''
                  @ toStringJS env (JNum (of_nat (length uniqueChords)))
                  @ '' main chords. With a tempo of ''
                  @ toStringJS env (tempo chordAnalysis)
                  @ '' BPM, it's perfect for ''
                  @ toLowerCase env d
                  @ '' level players to practice chord transitions and develop their strumming technique.''),
               difficulty = JStr d,
               estimatedTime = JNum 45,
               steps = JArr
                 [tutorialStep 1 ''Master Individual Chord Shapes''
                    ''Learn to form each chord cleanly and hold it for at least 10 seconds without buzzing or muted strings.''
                    (JArr uniqueChords)
                    [''Open chords'', ''Finger placement'', ''Clean fretting'']
                    [''Keep your thumb positioned behind the neck for support'',
                     ''Press strings just hard enough to get clear notes'',
                     ''Practice forming each chord from scratch 10 times'',
                     ''Check that each string rings clearly by plucking individually'']
                    15
                    [''Muted strings'', ''Buzzing frets'', ''Incorrect finger placement''],
                  tutorialStep 2 ''Practice Chord Transitions''
                    ''Work on smooth transitions between chord pairs, focusing on efficient finger movements.''
                    (JArr (take 2 uniqueChords))
                    [''Chord transitions'', ''Finger economy'', ''Pivot fingers'']
                    [''Identify which fingers can stay in place during transitions'',
                     ''Practice transitions slowly and gradually increase speed'',
                     ''Use a metronome starting at 60 BPM'',
                     ''Focus on accuracy over speed initially'']
                    20
                    [''Lifting all fingers unnecessarily'', ''Rushing transitions'', ''Inconsistent timing''],
                  tutorialStep 3 ''Learn the Strumming Pattern''
                    ''Master the strumming pattern that complements this song's rhythm and feel.''
                    (JArr [case uniqueChords of [] \<Rightarrow> JUndefined | c # cs \<Rightarrow> c])
                    [''Down strums'', ''Up strums'', ''Rhythm patterns'', ''Dynamics'']
                    [''Start with simple down strums on each beat'',
                     ''Gradually add up strums for more complex patterns'',
                     ''Keep your wrist relaxed and use arm movement'',
                     ''Listen to the original recording for rhythm reference'']
                    15
                    [''Tense wrist'', ''Inconsistent rhythm'', ''Too much force in strumming''],
                  tutorialStep 4 ''Combine Chords and Strumming''
                    ''Put together chord changes with the strumming pattern, starting slowly.''
                    (JArr uniqueChords)
                    [''Coordination'', ''Timing'', ''Muscle memory'']
                    [''Practice chord changes without strumming first'',
                     ''Add simple strumming once chord changes are smooth'',
                     ''Use a metronome to maintain steady timing'',
                     ''Don't rush - consistency is more important than speed'']
                    25
                    [''Stopping rhythm during chord changes'', ''Speeding up or slowing down'',
                     ''Inconsistent volume''],
                  tutorialStep 5 ''Play Song Sections''
                    ''Learn to play through complete sections like verse and chorus.''
                    (JArr uniqueChords)
                    [''Song structure'', ''Section transitions'', ''Performance'']
                    [''Practice each section separately before combining'',
                     ''Pay attention to how sections flow together'',
                     ''Practice transitions between verse and chorus'',
                     ''Focus on maintaining the groove throughout'']
                    20
                    [''Losing timing between sections'', ''Forgetting chord progressions'',
                     ''Inconsistent dynamics''],
                  tutorialStep 6 ''Full Song Performance''
                    ''Play the complete song from start to finish, focusing on musical expression.''
                    (JArr uniqueChords)
                    [''Full performance'', ''Dynamics'', ''Expression'']
                    [''Start at a slower tempo and gradually increase'',
                     ''Add dynamics - play some parts softer, others louder'',
                     ''Focus on the emotional content of the lyrics'',
                     ''Record yourself to identify areas for improvement'']
                    30
                    [''Playing mechanically'', ''Ignoring song dynamics'',
                     ''Not listening to the overall sound'']],
               practiceNotes = strs
                 [''Practice for 15-20 minutes daily for best results'',
                  ''Use a metronome to develop steady timing'',
                  ''Record yourself playing to track progress and identify issues'',
                  ''Try playing along with different versions of the song'',
                  ''Take breaks if your fingers get tired or sore'',
                  ''Focus on quality over quantity in your practice sessions''],
               requirements = strs [''Basic chord knowledge'', ''Comfortable with chord changes''],
               chordDiagrams = JObj
                 [(''G'', tab [''e|---3---|'', ''B|---0---|'', ''G|---0---|'', ''D|---0---|'', ''A|---2---|'', ''E|---3---|'']),
                  (''Em'', tab [''e|---0---|'', ''B|---0---|'', ''G|---0---|'', ''D|---2---|'', ''A|---2---|'', ''E|---0---|'']),
                  (''C'', tab [''e|---0---|'', ''B|---1---|'', ''G|---0---|'', ''D|---2---|'', ''A|---3---|'', ''E|-------|'']),
                  (''D'', tab [''e|---2---|'', ''B|---3---|'', ''G|---2---|'', ''D|---0---|'', ''A|-------|'', ''E|-------|'']),
                  (''Am'', tab [''e|---0---|'', ''B|---1---|'', ''G|---2---|'', ''D|---2---|'', ''A|---0---|'', ''E|-------|'']),
                  (''F'', tab [''e|---1---|'', ''B|---1---|'', ''G|---2---|'', ''D|---3---|'', ''A|---3---|'', ''E|---1---|''])],
               playingTips = JObj
                 [(''strumming'', JStr ''Focus on the down-up pattern and keep your wrist relaxed''),
                  (''rhythm'', JStr ''Count along with the beat: '1-2-3-4' to maintain timing''),
                  (''transitions'', JStr ''Practice chord changes slowly first, then gradually increase speed'')],
               performanceTips = strs
                 [''Start with a simplified version if the full arrangement is too challenging'',
                  ''Focus on playing with confidence rather than perfection'',
                  ''Enjoy the process and have fun with the music'',
                  ''Practice regularly but don't overdo it - quality over quantity'']\<rparr>
      | _ \<Rightarrow> Inl TypeError)"

subsection \<open>Normalizing the model's tutorial\<close>

text \<open>The object built in the block of \<^verbatim>\<open>generateTutorialWithAzureAI\<close> guarded by \<^verbatim>\<open>if (response)\<close>.\<close>

definition normalizeTutorial :: "env \<Rightarrow> SongInfo \<Rightarrow> ChordAnalysis \<Rightarrow> jsval \<Rightarrow> GuitarTutorial" where
  "normalizeTutorial env song chordAnalysis response =
     \<lparr>overview = orElse (readProp response ''overview'')
                   (JStr (''Learn to play '' @ [CHR 0x22] @ toStringJS env (title song) @ [CHR 0x22]
                          @ '' by '' @ toStringJS env (artist song))),
      difficulty = orElse (readProp response ''difficulty'') (ChordAnalysis.difficulty chordAnalysis),
      estimatedTime = orElse (readProp response ''estimatedTime'') (JNum 45),
      steps = orElse (readProp response ''steps'') (JArr []),
      practiceNotes = orElse (readProp response ''practiceNotes'') (strs [''Practice regularly'']),
      requirements = orElse (readProp response ''requirements'') (strs [''Basic chord knowledge'']),
      chordDiagrams = orElse (readProp response ''chordDiagrams'') (JObj []),
      playingTips = orElse (readProp response ''playingTips'') (JObj []),
      performanceTips = orElse (readProp response ''performanceTips'') (strs [''Have fun!''])\<rparr>"

definition generateTutorial_try ::
  "env \<Rightarrow> SongInfo \<Rightarrow> ChordAnalysis \<Rightarrow> error + jsval \<Rightarrow> error + GuitarTutorial" where
  "generateTutorial_try env song chordAnalysis r =
     bindE r (\<lambda>response.
       if truthy response then Inr (normalizeTutorial env song chordAnalysis response)
       else Inl (Error ''Invalid tutorial response''))"

definition tutorialPrompt :: "SongInfo \<Rightarrow> ChordAnalysis \<Rightarrow> prompt" where
  "tutorialPrompt song chordAnalysis =
     TutorialPrompt (title song) (artist song) (key chordAnalysis) (tempo chordAnalysis)
       (ChordAnalysis.difficulty chordAnalysis) (uniqueChordsOf chordAnalysis)
       (orElse (capo chordAnalysis) (JNum 0)) (strummingPattern chordAnalysis)"

definition generateTutorialWithAzureAI ::
  "env \<Rightarrow> SongInfo \<Rightarrow> ChordAnalysis \<Rightarrow> world \<Rightarrow> (error + GuitarTutorial) \<times> world" where
  "generateTutorialWithAzureAI env song chordAnalysis w =
     (case callAzureOpenAI env (tutorialPrompt song chordAnalysis) 3000 w of
        (r, w1) \<Rightarrow>
          (case generateTutorial_try env song chordAnalysis r of
             Inr t \<Rightarrow> (Inr t, w1)
           | Inl e \<Rightarrow>
               (getEnhancedMockTutorial env song chordAnalysis,
                emit (ConsoleError ''Error generating tutorial with Azure OpenAI:'' e) w1)))"

section \<open>analyzeSongByName\<close>

text \<open>\<^verbatim>\<open>{ songInfo, ...chordAnalysis }\<close>\<close>

definition withSongInfo :: "SongInfo \<Rightarrow> ChordAnalysis \<Rightarrow> ChordAnalysisResult" where
  "withSongInfo song chordAnalysis =
     ChordAnalysis.extend chordAnalysis (ChordAnalysisResult.fields song)"

definition analysisFailed :: error where
  "analysisFailed = Error ''Failed to analyze the song. Please try again.''"

definition analyzeSongByName ::
  "env \<Rightarrow> SongInfo \<Rightarrow> world \<Rightarrow> (error + FullAnalysisResult) \<times> world" where
  "analyzeSongByName env song w =
     (case analyzeChordsWithAzureAI env song w of
        (Inl e, w1) \<Rightarrow> (Inl analysisFailed, emit (ConsoleError ''Error analyzing song:'' e) w1)
      | (Inr chordAnalysis, w1) \<Rightarrow>
          (case generateTutorialWithAzureAI env song chordAnalysis w1 of
             (Inl e, w2) \<Rightarrow> (Inl analysisFailed, emit (ConsoleError ''Error analyzing song:'' e) w2)
           | (Inr t, w2) \<Rightarrow>
               (Inr \<lparr>analysis = withSongInfo song chordAnalysis, tutorial = t\<rparr>, w2)))"

section \<open>Specification-level notions\<close>

text \<open>
  The specification's words for the search fallback: a case-insensitive substring match
  of the query against a field, here stated with the library's \<^const>\<open>sublist\<close> rather
  than with the recursion of \<^const>\<open>includesStr\<close>.
\<close>

definition caseInsensitiveSubstring :: "env \<Rightarrow> string \<Rightarrow> jsval \<Rightarrow> bool" where
  "caseInsensitiveSubstring env query field =
     (case field of
        JStr s \<Rightarrow> sublist (toLowerCase env query) (toLowerCase env s)
      | _ \<Rightarrow> False)"

definition matchesQuery :: "env \<Rightarrow> string \<Rightarrow> SongInfo \<Rightarrow> bool" where
  "matchesQuery env query song =
     (caseInsensitiveSubstring env query (title song)
      \<or> caseInsensitiveSubstring env query (artist song)
      \<or> caseInsensitiveSubstring env query (genre song))"

text \<open>What the filter of the second version tests: the title and the artist, and not the genre.\<close>

definition matchesTitleOrArtist :: "env \<Rightarrow> string \<Rightarrow> SongInfo \<Rightarrow> bool" where
  "matchesTitleOrArtist env query song =
     (caseInsensitiveSubstring env query (title song)
      \<or> caseInsensitiveSubstring env query (artist song))"

text \<open>The specification's words for the chord fallback: the title contains a keyword, case-insensitively.\<close>

definition titleContains :: "env \<Rightarrow> string \<Rightarrow> string \<Rightarrow> bool" where
  "titleContains env t keyword = sublist keyword (toLowerCase env t)"

text \<open>A candidate field is a non-empty string.\<close>

fun nonEmptyString :: "jsval \<Rightarrow> bool" where
  "nonEmptyString (JStr s) = (s \<noteq> [])"
| "nonEmptyString v = False"

section \<open>Test doubles for concrete runs\<close>

text \<open>
  The statements below hold for every environment. To run the model on concrete inputs
  the built-in functions are replaced by doubles that agree with them on ASCII text.
\<close>

text \<open>An ASCII capital is lowered by setting the bit of weight 32 in its code.\<close>

definition isUpper :: "char \<Rightarrow> bool" where
  "isUpper c = (65 \<le> (of_char c :: nat) \<and> (of_char c :: nat) \<le> 90)"

definition lowerChar :: "char \<Rightarrow> char" where
  "lowerChar c =
     (if isUpper c
      then (case c of Char b0 b1 b2 b3 b4 b5 b6 b7 \<Rightarrow> Char b0 b1 b2 b3 b4 True b6 b7)
      else c)"

definition asciiLower :: "string \<Rightarrow> string" where
  "asciiLower s = map lowerChar s"

definition isSpace :: "char \<Rightarrow> bool" where
  "isSpace c = (c \<in> set [CHR '' '', CHR 0x09, CHR 0x0A, CHR 0x0B, CHR 0x0C, CHR 0x0D])"

definition asciiTrim :: "string \<Rightarrow> string" where
  "asciiTrim s = rev (dropWhile isSpace (rev (dropWhile isSpace s)))"

text \<open>The JSON text \<^verbatim>\<open>{"overview":"Play it slowly"}\<close>.\<close>

definition overviewDocument :: string where
  "overviewDocument =
     ''{'' @ [CHR 0x22] @ ''overview'' @ [CHR 0x22] @ '':'' @ [CHR 0x22] @ ''Play it slowly''
     @ [CHR 0x22] @ ''}''"

text \<open>A parser that knows six documents and rejects every other text.\<close>

definition parseKnown :: "string \<Rightarrow> jsval option" where
  "parseKnown s =
     map_of [(''{}'', JObj []),
             (''[]'', JArr []),
             (''[{}]'', JArr [JObj []]),
             (''null'', JNull),
             (''5'', JNum 5),
             (overviewDocument, JObj [(''overview'', JStr ''Play it slowly'')])] s"

definition unreserved :: "char \<Rightarrow> bool" where
  "unreserved c =
     (c \<in> set (''ABCDEFGHIJKLMNOPQRSTUVWXYZabcdefghijklmnopqrstuvwxyz0123456789'' @ ''-_.!~*()'' @ [CHR 0x27]))"

definition hexDigit :: "nat \<Rightarrow> char" where
  "hexDigit n = ''0123456789ABCDEF'' ! n"

definition percentEncode :: "char \<Rightarrow> string" where
  "percentEncode c =
     (if unreserved c then [c]
      else [CHR ''%'', hexDigit (of_char c div 16), hexDigit (of_char c mod 16)])"

text \<open>
  Exact on strings, \<^verbatim>\<open>undefined\<close>, \<^verbatim>\<open>null\<close> and booleans. The built-in encodes the text of
  a number, an array or an object; this double refuses them, and no statement below
  applies it to one.
\<close>

definition encodeKnown :: "jsval \<Rightarrow> string option" where
  "encodeKnown v =
     (case v of
        JStr s \<Rightarrow> Some (concat (map percentEncode s))
      | JUndefined \<Rightarrow> Some ''undefined''
      | JNull \<Rightarrow> Some ''null''
      | JBool b \<Rightarrow> Some (if b then ''true'' else ''false'')
      | _ \<Rightarrow> None)"

text \<open>
  Exact on strings, \<^verbatim>\<open>undefined\<close>, \<^verbatim>\<open>null\<close>, booleans and plain objects. A number or an
  array is not printed as JavaScript prints it, and no statement below reads such a text.
\<close>

definition toStringKnown :: "jsval \<Rightarrow> string" where
  "toStringKnown v =
     (case v of
        JStr s \<Rightarrow> s
      | JUndefined \<Rightarrow> ''undefined''
      | JNull \<Rightarrow> ''null''
      | JBool b \<Rightarrow> (if b then ''true'' else ''false'')
      | _ \<Rightarrow> ''[object Object]'')"

text \<open>No network and no key in the process environment.\<close>

definition offlineEnv :: env where
  "offlineEnv =
     \<lparr>toLowerCase = asciiLower,
      trim = asciiTrim,
      JSON_parse = parseKnown,
      encodeURIComponent = encodeKnown,
      toStringJS = toStringKnown,
      fetch = (\<lambda>n. FetchRejected),
      EXPO_PUBLIC_AZURE_OPENAI_API_KEY = None\<rparr>"

text \<open>A configured key and an endpoint that answers the requests of a run with the given results, in order.\<close>

definition scriptedEnv :: "fetch_result list \<Rightarrow> env" where
  "scriptedEnv rs =
     offlineEnv\<lparr>fetch := (\<lambda>n. if n < length rs then rs ! n else FetchRejected),
                EXPO_PUBLIC_AZURE_OPENAI_API_KEY := Some ''0123456789abcdef''\<rparr>"

text \<open>A successful completion whose first choice carries the given content.\<close>

definition chatReply :: "string \<Rightarrow> fetch_result" where
  "chatReply content =
     Response True 200 ''OK''
       (Some (JObj [(''choices'', JArr [JObj [(''message'', JObj [(''content'', JStr content)])]])]))"

definition startWorld :: world where
  "startWorld = \<lparr>fetches = 0, trace = []\<rparr>"

text \<open>Three requests that fail in three different ways.\<close>

definition failingReplies :: "fetch_result list" where
  "failingReplies =
     [FetchRejected, Response False 500 ''Internal Server Error'' None, chatReply ''not json'']"

text \<open>A song as the caller passes it to the analysis, with the given title.\<close>

definition songTitled :: "string \<Rightarrow> SongInfo" where
  "songTitled t =
     \<lparr>title = JStr t,
      artist = JStr ''Oasis'',
      duration = JNum 258,
      thumbnail = ''https://via.placeholder.com/480x360/1e293b/white?text=Oasis'',
      url = ''song://Oasis'',
      album = JUndefined,
      year = JUndefined,
      genre = JUndefined,
      popularity = JUndefined,
      description = JUndefined\<rparr>"

text \<open>The chord call fails three times; the tutorial call then gets the given content.\<close>

definition chordsDownReplies :: "string \<Rightarrow> fetch_result list" where
  "chordsDownReplies content = [FetchRejected, FetchRejected, FetchRejected, chatReply content]"

text \<open>What three failed requests for a prompt leave in the trace.\<close>

definition offlineTrace :: "prompt \<Rightarrow> nat \<Rightarrow> event list" where
  "offlineTrace p maxTokens =
     [Fetch p maxTokens, WarnAttemptFailed 1 NetworkError, SetTimeout 1000,
      Fetch p maxTokens, WarnAttemptFailed 2 NetworkError, SetTimeout 2000,
      Fetch p maxTokens, WarnAttemptFailed 3 NetworkError]"

section \<open>Properties of the completion client\<close>

lemma retryLoop_fail_step:
  assumes "attempt \<le> maxRetries" and "attemptResult env (fetch env (fetches w)) = Inl e"
  shows "retryLoop env p maxTokens attempt lastError w =
           retryLoop env p maxTokens (Suc attempt) (Some e)
             (let w2 = emit (WarnAttemptFailed attempt e)
                         (emit (Fetch p maxTokens) (w\<lparr>fetches := Suc (fetches w)\<rparr>))
              in if attempt < maxRetries then emit (SetTimeout (1000 * 2 ^ (attempt - 1))) w2 else w2)"
  using assms by (subst retryLoop.simps) (simp add: Let_def)

lemma retryLoop_ok_step:
  assumes "attempt \<le> maxRetries" and "attemptResult env (fetch env (fetches w)) = Inr v"
  shows "retryLoop env p maxTokens attempt lastError w =
           (Inr v, emit (Fetch p maxTokens) (w\<lparr>fetches := Suc (fetches w)\<rparr>))"
  using assms by (subst retryLoop.simps) (simp add: Let_def)

lemma retryLoop_exit:
  assumes "maxRetries < attempt"
  shows "retryLoop env p maxTokens attempt (Some e) w = (Inl e, w)"
  using assms by (subst retryLoop.simps) simp

lemma call_fails_thrice:
  assumes a1: "attemptResult env (fetch env (fetches w)) = Inl e1"
      and a2: "attemptResult env (fetch env (Suc (fetches w))) = Inl e2"
      and a3: "attemptResult env (fetch env (Suc (Suc (fetches w)))) = Inl e3"
  shows "callAzureOpenAI env p maxTokens w =
           (Inl e3,
            \<lparr>fetches = fetches w + 3,
             trace = trace w @
               [Fetch p maxTokens, WarnAttemptFailed 1 e1, SetTimeout 1000,
                Fetch p maxTokens, WarnAttemptFailed 2 e2, SetTimeout 2000,
                Fetch p maxTokens, WarnAttemptFailed 3 e3]\<rparr>)"
  using a1 a2 a3
  by (simp add: callAzureOpenAI_def retryLoop_fail_step retryLoop_exit maxRetries_def emit_def Let_def)

lemma call_ok_first:
  assumes "attemptResult env (fetch env (fetches w)) = Inr v"
  shows "callAzureOpenAI env p maxTokens w =
           (Inr v, \<lparr>fetches = Suc (fetches w), trace = trace w @ [Fetch p maxTokens]\<rparr>)"
  using assms by (simp add: callAzureOpenAI_def retryLoop_ok_step maxRetries_def emit_def)

text \<open>The call fails exactly when each of its three attempts fails, and then with the third error.\<close>

lemma call_fails_iff:
  "fst (callAzureOpenAI env p maxTokens w) = Inl e \<longleftrightarrow>
     (\<exists>e1 e2. attemptResult env (fetch env (fetches w)) = Inl e1
        \<and> attemptResult env (fetch env (Suc (fetches w))) = Inl e2
        \<and> attemptResult env (fetch env (Suc (Suc (fetches w)))) = Inl e)"
proof (cases "attemptResult env (fetch env (fetches w))")
  case (Inr v)
  then show ?thesis by (simp add: call_ok_first)
next
  case a1: (Inl e1)
  show ?thesis
  proof (cases "attemptResult env (fetch env (Suc (fetches w)))")
    case (Inr v)
    with a1 show ?thesis
      by (simp add: callAzureOpenAI_def retryLoop_fail_step retryLoop_ok_step maxRetries_def
          emit_def Let_def)
  next
    case a2: (Inl e2)
    show ?thesis
    proof (cases "attemptResult env (fetch env (Suc (Suc (fetches w))))")
      case (Inr v)
      with a1 a2 show ?thesis
        by (simp add: callAzureOpenAI_def retryLoop_fail_step retryLoop_ok_step maxRetries_def
            emit_def Let_def)
    next
      case (Inl e3)
      with a1 a2 show ?thesis by (simp add: call_fails_thrice)
    qed
  qed
qed

lemma attempt_rejected: "attemptResult env FetchRejected = Inl NetworkError"
  by (simp add: attemptResult_def)

lemma attempt_status: "attemptResult env (Response False status statusText body) = Inl (ApiError status statusText)"
  by (simp add: attemptResult_def)

lemma attempt_chatReply:
  "attemptResult env (chatReply (c # cs)) =
     (case JSON_parse env (cleanContent env (c # cs)) of None \<Rightarrow> Inl SyntaxError | Some v \<Rightarrow> Inr v)"
  by (simp add: attemptResult_def chatReply_def extractContent_def getProp_def optProp_def bindE_def)

lemma offline_fetch: "fetch offlineEnv n = FetchRejected"
  by (simp add: offlineEnv_def)

lemma offline_call:
  "callAzureOpenAI offlineEnv p maxTokens w =
     (Inl NetworkError,
      \<lparr>fetches = fetches w + 3,
       trace = trace w @
         [Fetch p maxTokens, WarnAttemptFailed 1 NetworkError, SetTimeout 1000,
          Fetch p maxTokens, WarnAttemptFailed 2 NetworkError, SetTimeout 2000,
          Fetch p maxTokens, WarnAttemptFailed 3 NetworkError]\<rparr>)"
  by (rule call_fails_thrice) (simp_all add: offline_fetch attempt_rejected)

text \<open>
  C1. Whatever the prompt, when each of the three attempts fails, \<^verbatim>\<open>callAzureOpenAI\<close>
  issues exactly three requests, asks for a wait of \<open>1000 * 2 ^ (attempt - 1)\<close> milliseconds
  after the first and after the second failure (1000 and 2000) and for none after the
  third, logs one warning per failed attempt, and throws the error of the last attempt.
\<close>

theorem callAzureOpenAI_all_attempts_fail:
  assumes a1: "attemptResult env (fetch env (fetches w)) = Inl e1"
      and a2: "attemptResult env (fetch env (fetches w + 1)) = Inl e2"
      and a3: "attemptResult env (fetch env (fetches w + 2)) = Inl e3"
  shows "callAzureOpenAI env p maxTokens w =
           (Inl e3,
            \<lparr>fetches = fetches w + 3,
             trace = trace w @
               [Fetch p maxTokens, WarnAttemptFailed 1 e1, SetTimeout (1000 * 2 ^ (1 - 1)),
                Fetch p maxTokens, WarnAttemptFailed 2 e2, SetTimeout (1000 * 2 ^ (2 - 1)),
                Fetch p maxTokens, WarnAttemptFailed 3 e3]\<rparr>)"
  using call_fails_thrice [of env w e1 e2 e3 p maxTokens] a1 a2 a3 by simp

theorem callAzureOpenAI_all_attempts_fail_witness:
  "attemptResult (scriptedEnv failingReplies) (fetch (scriptedEnv failingReplies) (fetches startWorld))
     = Inl NetworkError
   \<and> attemptResult (scriptedEnv failingReplies) (fetch (scriptedEnv failingReplies) (fetches startWorld + 1))
     = Inl (ApiError 500 ''Internal Server Error'')
   \<and> attemptResult (scriptedEnv failingReplies) (fetch (scriptedEnv failingReplies) (fetches startWorld + 2))
     = Inl SyntaxError
   \<and> callAzureOpenAI (scriptedEnv failingReplies) (SearchPrompt ''perfect'') 2000 startWorld =
       (Inl SyntaxError,
        \<lparr>fetches = 3,
         trace =
           [Fetch (SearchPrompt ''perfect'') 2000, WarnAttemptFailed 1 NetworkError, SetTimeout 1000,
            Fetch (SearchPrompt ''perfect'') 2000,
            WarnAttemptFailed 2 (ApiError 500 ''Internal Server Error''), SetTimeout 2000,
            Fetch (SearchPrompt ''perfect'') 2000, WarnAttemptFailed 3 SyntaxError]\<rparr>)"
proof -
  let ?env = "scriptedEnv failingReplies"
  have f0: "fetch ?env (fetches startWorld) = FetchRejected"
    and f1: "fetch ?env (fetches startWorld + 1) = Response False 500 ''Internal Server Error'' None"
    and f2: "fetch ?env (fetches startWorld + 2) = chatReply ''not json''"
    by (simp_all add: scriptedEnv_def failingReplies_def startWorld_def)
  have c: "cleanContent ?env ''not json'' = ''not json''"
    by (simp add: cleanContent_def scriptedEnv_def offlineEnv_def fence_def asciiTrim_def isSpace_def)
  have p: "JSON_parse ?env ''not json'' = None"
    by (simp add: scriptedEnv_def offlineEnv_def parseKnown_def overviewDocument_def)
  have h1: "attemptResult ?env (fetch ?env (fetches startWorld)) = Inl NetworkError"
    by (simp only: f0 attempt_rejected)
  have h2: "attemptResult ?env (fetch ?env (fetches startWorld + 1)) = Inl (ApiError 500 ''Internal Server Error'')"
    by (simp only: f1 attempt_status)
  have h3: "attemptResult ?env (fetch ?env (fetches startWorld + 2)) = Inl SyntaxError"
    by (simp only: f2 attempt_chatReply c p option.case)
  from callAzureOpenAI_all_attempts_fail [OF h1 h2 h3, of "SearchPrompt ''perfect''" 2000] h1 h2 h3
  show ?thesis by (simp add: startWorld_def)
qed

section \<open>Properties of the search fallback\<close>

lemma includesStr_sublist: "includesStr s t = sublist t s"
  by (induction s) (auto simp: sublist_Cons_right)

lemma filterE_total:
  assumes "\<And>x. x \<in> set xs \<Longrightarrow> f x = Inr (p x)"
  shows "filterE f xs = Inr (filter p xs)"
  using assms by (induction xs) (simp_all add: bindE_def)

lemma songMatches_mockSongs:
  assumes "song \<in> set mockSongs"
  shows "songMatches env query song = Inr (matchesQuery env query song)"
  using assms
  by (auto simp: mockSongs_def songMatches_def matchesQuery_def lowerIncludes_def
      caseInsensitiveSubstring_def bindE_def includesStr_sublist)

lemma getMock_filter:
  "getMockSongSearchResults env query =
     Inr (if filter (matchesQuery env query) mockSongs = [] then take 3 mockSongs
          else filter (matchesQuery env query) mockSongs)"
  by (simp add: getMockSongSearchResults_def filterE_total [OF songMatches_mockSongs] bindE_def)

lemma take3_mockSongs: "length (take 3 mockSongs) = 3"
  by (simp add: mockSongs_def)

lemma no_match_example: "filter (matchesQuery offlineEnv ''zzz-no-match-xyz'') mockSongs = []"
  by (simp add: mockSongs_def matchesQuery_def caseInsensitiveSubstring_def
      includesStr_sublist [symmetric] offlineEnv_def asciiLower_def lowerChar_def isUpper_def)

text \<open>The smaller catalog of the other version.\<close>

lemma songMatches_alt_mockSongs:
  assumes "song \<in> set mockSongs_alt"
  shows "\<exists>b. songMatches_alt env query song = Inr b"
  using assms
  by (auto simp: mockSongs_alt_def songMatches_alt_def lowerIncludes_def bindE_def)

lemma filterE_defined:
  assumes "\<And>x. x \<in> set xs \<Longrightarrow> \<exists>b. f x = Inr b"
  shows "\<exists>ys. filterE f xs = Inr ys \<and> set ys \<subseteq> set xs"
  using assms
proof (induction xs)
  case Nil
  then show ?case by simp
next
  case (Cons x xs)
  then obtain b ys where "f x = Inr b" "filterE f xs = Inr ys" "set ys \<subseteq> set xs"
    by (meson list.set_intros)
  then show ?case by (auto simp: bindE_def)
qed

lemma getMock_alt_defined:
  "\<exists>songs. getMockSongSearchResults_alt env query = Inr songs \<and> songs \<noteq> [] \<and> set songs \<subseteq> set mockSongs_alt"
proof -
  obtain ys where ys: "filterE (songMatches_alt env query) mockSongs_alt = Inr ys" "set ys \<subseteq> set mockSongs_alt"
    using filterE_defined [of mockSongs_alt "songMatches_alt env query"] songMatches_alt_mockSongs by blast
  have "take 3 mockSongs_alt = mockSongs_alt" "mockSongs_alt \<noteq> []" by (simp_all add: mockSongs_alt_def)
  with ys show ?thesis
    by (auto simp: getMockSongSearchResults_alt_def bindE_def)
qed

lemma getMock_defined:
  "\<exists>songs. getMockSongSearchResults env query = Inr songs \<and> songs \<noteq> [] \<and> set songs \<subseteq> set mockSongs"
proof -
  have "take 3 mockSongs \<noteq> []" using take3_mockSongs by auto
  moreover have "set (take 3 mockSongs) \<subseteq> set mockSongs" by (rule set_take_subset)
  ultimately show ?thesis by (auto simp: getMock_filter)
qed

lemma no_match_example_alt:
  "getMockSongSearchResults_alt offlineEnv ''zzz-no-match-xyz'' = Inr mockSongs_alt"
  by (simp add: getMockSongSearchResults_alt_def mockSongs_alt_def songMatches_alt_def
      lowerIncludes_def bindE_def offlineEnv_def asciiLower_def lowerChar_def isUpper_def)

lemma songMatches_alt_eq:
  assumes "song \<in> set mockSongs_alt"
  shows "songMatches_alt env query song = Inr (matchesTitleOrArtist env query song)"
  using assms
  by (auto simp: mockSongs_alt_def songMatches_alt_def matchesTitleOrArtist_def lowerIncludes_def
      caseInsensitiveSubstring_def bindE_def includesStr_sublist)

lemma getMock_alt_filter:
  "getMockSongSearchResults_alt env query =
     Inr (if filter (matchesTitleOrArtist env query) mockSongs_alt = [] then take 3 mockSongs_alt
          else filter (matchesTitleOrArtist env query) mockSongs_alt)"
  by (simp add: getMockSongSearchResults_alt_def filterE_total [OF songMatches_alt_eq] bindE_def)

lemma rock_examples:
  "filter (matchesTitleOrArtist offlineEnv ''rock'') mockSongs_alt = []"
  "filter (matchesQuery offlineEnv ''rock'') mockSongs_alt = take 1 (drop 1 mockSongs_alt)"
  "filter (matchesQuery offlineEnv ''rock'') mockSongs = take 1 (drop 1 mockSongs) @ drop 3 mockSongs"
  by (simp_all add: mockSongs_def mockSongs_alt_def matchesQuery_def matchesTitleOrArtist_def
      caseInsensitiveSubstring_def includesStr_sublist [symmetric] offlineEnv_def asciiLower_def
      lowerChar_def isUpper_def)

text \<open>
  C6. For every query the search fallback of the first version returns the songs of its
  catalog whose title, artist or genre contains the query, letter case ignored, in
  catalog order; when no song matches it returns the first three songs of the catalog,
  so the result is never empty, and for the query \<^verbatim>\<open>zzz-no-match-xyz\<close> it returns exactly
  those three. The fallback of the second version does the same with a filter that
  tests the title and the artist only: for the query \<^verbatim>\<open>rock\<close>, which the genre of one of
  its three songs contains, it finds no match and returns all three songs, where the
  first version returns the songs whose genre matches.
\<close>

theorem getMockSongSearchResults_spec:
  "getMockSongSearchResults env query =
     Inr (if filter (matchesQuery env query) mockSongs = [] then take 3 mockSongs
          else filter (matchesQuery env query) mockSongs)
   \<and> getMockSongSearchResults env query \<noteq> Inr []
   \<and> getMockSongSearchResults offlineEnv ''zzz-no-match-xyz'' = Inr (take 3 mockSongs)
   \<and> length (take 3 mockSongs) = 3
   \<and> getMockSongSearchResults offlineEnv ''rock'' = Inr (take 1 (drop 1 mockSongs) @ drop 3 mockSongs)
   \<and> getMockSongSearchResults_alt env query =
     Inr (if filter (matchesTitleOrArtist env query) mockSongs_alt = [] then take 3 mockSongs_alt
          else filter (matchesTitleOrArtist env query) mockSongs_alt)
   \<and> getMockSongSearchResults_alt env query \<noteq> Inr []
   \<and> getMockSongSearchResults_alt offlineEnv ''zzz-no-match-xyz'' = Inr mockSongs_alt
   \<and> length mockSongs_alt = 3
   \<and> filter (matchesQuery offlineEnv ''rock'') mockSongs_alt = take 1 (drop 1 mockSongs_alt)
   \<and> length (take 1 (drop 1 mockSongs_alt)) = 1
   \<and> getMockSongSearchResults_alt offlineEnv ''rock'' = Inr mockSongs_alt"
proof -
  have "take 3 mockSongs \<noteq> []" using take3_mockSongs by auto
  then have 1: "getMockSongSearchResults env query \<noteq> Inr []"
    by (simp add: getMock_filter)
  have 2: "getMockSongSearchResults offlineEnv ''zzz-no-match-xyz'' = Inr (take 3 mockSongs)"
    by (simp add: getMock_filter no_match_example)
  have 3: "getMockSongSearchResults_alt env query \<noteq> Inr []"
    using getMock_alt_defined [of env query] by auto
  have 4: "length mockSongs_alt = 3" "take 3 mockSongs_alt = mockSongs_alt"
    "length (take 1 (drop 1 mockSongs_alt)) = 1"
    by (simp_all add: mockSongs_alt_def)
  have "take 1 (drop 1 mockSongs) @ drop 3 mockSongs \<noteq> []"
    by (simp add: mockSongs_def)
  then have 5: "getMockSongSearchResults offlineEnv ''rock'' = Inr (take 1 (drop 1 mockSongs) @ drop 3 mockSongs)"
    by (simp add: getMock_filter rock_examples(3))
  have 6: "getMockSongSearchResults_alt offlineEnv ''rock'' = Inr mockSongs_alt"
    by (simp add: getMock_alt_filter rock_examples(1) 4(2))
  from 1 2 3 4 5 6 getMock_filter getMock_alt_filter take3_mockSongs no_match_example_alt rock_examples(2)
  show ?thesis by blast
qed

section \<open>Properties of searchSongs\<close>

text \<open>The \<^verbatim>\<open>try\<close> block throws when the completion call fails or the mapping of an array reply throws.\<close>

lemma searchSongs_try_throws_iff:
  "(\<exists>w'. searchSongs_try env query w = (Inl e, w')) \<longleftrightarrow>
     (fst (callAzureOpenAI env (SearchPrompt query) 2000 (configurationCheck env w)) = Inl e
      \<or> (\<exists>items. fst (callAzureOpenAI env (SearchPrompt query) 2000 (configurationCheck env w)) = Inr (JArr items)
            \<and> mapE (toSongInfo env) items = Inl e))"
proof -
  obtain r w2 where c: "callAzureOpenAI env (SearchPrompt query) 2000 (configurationCheck env w) = (r, w2)"
    by (cases "callAzureOpenAI env (SearchPrompt query) 2000 (configurationCheck env w)")
  show ?thesis
  proof (cases r)
    case (Inl e')
    with c show ?thesis by (auto simp: searchSongs_try_def)
  next
    case (Inr response)
    with c show ?thesis
      by (cases response) (auto simp: searchSongs_try_def split: sum.splits)
  qed
qed


lemma keyNotConfigured_offline: "keyNotConfigured offlineEnv"
  by (simp add: keyNotConfigured_def AZURE_OPENAI_API_KEY_def offlineEnv_def)

lemma offline_search_try:
  "searchSongs_try offlineEnv query startWorld =
     (Inl NetworkError,
      \<lparr>fetches = 3,
       trace =
         [ConsoleWarn ''Azure OpenAI API key not configured'',
          Alert ''Warning'' ''Azure OpenAI API key not configured'',
          Fetch (SearchPrompt query) 2000, WarnAttemptFailed 1 NetworkError, SetTimeout 1000,
          Fetch (SearchPrompt query) 2000, WarnAttemptFailed 2 NetworkError, SetTimeout 2000,
          Fetch (SearchPrompt query) 2000, WarnAttemptFailed 3 NetworkError]\<rparr>)"
  by (simp add: searchSongs_try_def offline_call configurationCheck_def keyNotConfigured_offline
      emit_def startWorld_def)

lemma perfect_matches:
  "filter (matchesQuery offlineEnv ''perfect'') mockSongs = take 1 mockSongs"
  by (simp add: mockSongs_def matchesQuery_def caseInsensitiveSubstring_def
      includesStr_sublist [symmetric] offlineEnv_def asciiLower_def lowerChar_def isUpper_def)

lemma offline_mock_perfect: "getMockSongSearchResults offlineEnv ''perfect'' = Inr (take 1 mockSongs)"
  by (simp add: getMock_filter perfect_matches)

lemma scripted_lower: "toLowerCase (scriptedEnv rs) = asciiLower"
  by (simp add: scriptedEnv_def offlineEnv_def)

lemma alt_mock_perfect:
  "toLowerCase env = asciiLower \<Longrightarrow> getMockSongSearchResults_alt env ''perfect'' = Inr (take 1 mockSongs_alt)"
  by (simp add: getMockSongSearchResults_alt_def mockSongs_alt_def songMatches_alt_def
      lowerIncludes_def bindE_def asciiLower_def lowerChar_def isUpper_def)


lemma scripted_configured: "\<not> keyNotConfigured (scriptedEnv rs)" "\<not> keyNotConfigured_alt (scriptedEnv rs)"
  by (simp_all add: keyNotConfigured_def keyNotConfigured_alt_def AZURE_OPENAI_API_KEY_def
      scriptedEnv_def placeholderKey_def)



text \<open>
  C10. When the completion call succeeds and the parsed reply is not an array,
  \<^verbatim>\<open>searchSongs\<close> resolves with \<^verbatim>\<open>undefined\<close>: it neither throws nor returns the fallback
  result, and nothing more is logged.
\<close>

theorem searchSongs_non_array_reply:
  assumes "callAzureOpenAI env (SearchPrompt query) 2000 (configurationCheck env w) = (Inr r, w2)"
      and "\<forall>items. r \<noteq> JArr items"
  shows "searchSongs env query w = (Inr None, w2)"
  using assms by (cases r) (simp_all add: searchSongs_def searchSongs_try_def)

lemma scripted_parse: "JSON_parse (scriptedEnv rs) = parseKnown" "trim (scriptedEnv rs) = asciiTrim"
  by (simp_all add: scriptedEnv_def offlineEnv_def)

lemma clean_braces:
  "trim env = asciiTrim \<Longrightarrow> cleanContent env ''{}'' = ''{}''"
  "trim env = asciiTrim \<Longrightarrow> cleanContent env ''[{}]'' = ''[{}]''"
  "trim env = asciiTrim \<Longrightarrow> cleanContent env ''null'' = ''null''"
  by (simp_all add: cleanContent_def fence_def asciiTrim_def isSpace_def)

theorem searchSongs_non_array_reply_witness:
  "callAzureOpenAI (scriptedEnv [chatReply ''{}'']) (SearchPrompt ''perfect'') 2000
       (configurationCheck (scriptedEnv [chatReply ''{}'']) startWorld)
     = (Inr (JObj []), \<lparr>fetches = 1, trace = [Fetch (SearchPrompt ''perfect'') 2000]\<rparr>)
   \<and> (\<forall>items. JObj [] \<noteq> JArr items)
   \<and> searchSongs (scriptedEnv [chatReply ''{}'']) ''perfect'' startWorld
     = (Inr None, \<lparr>fetches = 1, trace = [Fetch (SearchPrompt ''perfect'') 2000]\<rparr>)"
proof -
  let ?env = "scriptedEnv [chatReply ''{}'']"
  have f: "fetch ?env (fetches startWorld) = chatReply ''{}''"
    by (simp add: scriptedEnv_def startWorld_def)
  have "attemptResult ?env (fetch ?env (fetches startWorld)) = Inr (JObj [])"
    by (simp add: f attempt_chatReply clean_braces scripted_parse parseKnown_def)
  then have c: "callAzureOpenAI ?env (SearchPrompt ''perfect'') 2000 (configurationCheck ?env startWorld)
     = (Inr (JObj []), \<lparr>fetches = 1, trace = [Fetch (SearchPrompt ''perfect'') 2000]\<rparr>)"
    by (simp add: configurationCheck_def scripted_configured call_ok_first startWorld_def)
  have n: "\<forall>items. JObj [] \<noteq> JArr items" by simp
  from searchSongs_non_array_reply [OF c n] c n show ?thesis by blast
qed

subsection \<open>An unconfigured key\<close>

lemma retryLoop_fetches_mono:
  "fetches w \<le> fetches (snd (retryLoop env p maxTokens attempt lastError w))"
proof (induction env p maxTokens attempt lastError w rule: retryLoop.induct)
  case (1 env p maxTokens attempt lastError w)
  show ?case
  proof (cases "attempt \<le> maxRetries")
    case False
    then show ?thesis
      by (subst retryLoop.simps) (simp split: option.splits)
  next
    case le: True
    show ?thesis
    proof (cases "attemptResult env (fetch env (fetches w))")
      case (Inr v)
      with le show ?thesis by (simp add: retryLoop_ok_step emit_def)
    next
      case (Inl e)
      from "1.IH" [OF le refl Inl refl refl]
      have "Suc (fetches w) \<le> fetches (snd (retryLoop env p maxTokens (attempt + 1) (Some e)
              (if attempt < maxRetries
               then emit (SetTimeout (1000 * 2 ^ (attempt - 1)))
                      (emit (WarnAttemptFailed attempt e) (emit (Fetch p maxTokens) (w\<lparr>fetches := Suc (fetches w)\<rparr>)))
               else emit (WarnAttemptFailed attempt e) (emit (Fetch p maxTokens) (w\<lparr>fetches := Suc (fetches w)\<rparr>)))))"
        by (simp add: emit_def split: if_splits)
      with le Inl show ?thesis
        by (simp add: retryLoop_fail_step Let_def)
    qed
  qed
qed

lemma retryLoop_trace_prefix:
  "prefix (trace w) (trace (snd (retryLoop env p maxTokens attempt lastError w)))"
proof (induction env p maxTokens attempt lastError w rule: retryLoop.induct)
  case (1 env p maxTokens attempt lastError w)
  show ?case
  proof (cases "attempt \<le> maxRetries")
    case False
    then show ?thesis
      by (subst retryLoop.simps) (simp split: option.splits)
  next
    case le: True
    show ?thesis
    proof (cases "attemptResult env (fetch env (fetches w))")
      case (Inr v)
      with le show ?thesis by (simp add: retryLoop_ok_step emit_def)
    next
      case (Inl e)
      let ?w3 = "if attempt < maxRetries
               then emit (SetTimeout (1000 * 2 ^ (attempt - 1)))
                      (emit (WarnAttemptFailed attempt e) (emit (Fetch p maxTokens) (w\<lparr>fetches := Suc (fetches w)\<rparr>)))
               else emit (WarnAttemptFailed attempt e) (emit (Fetch p maxTokens) (w\<lparr>fetches := Suc (fetches w)\<rparr>))"
      from "1.IH" [OF le refl Inl refl refl]
      have "prefix (trace ?w3) (trace (snd (retryLoop env p maxTokens (attempt + 1) (Some e) ?w3)))"
        by (simp add: emit_def split: if_splits)
      moreover have "prefix (trace w @ [Fetch p maxTokens]) (trace ?w3)"
        by (simp add: emit_def)
      ultimately have "prefix (trace w @ [Fetch p maxTokens]) (trace (snd (retryLoop env p maxTokens (attempt + 1) (Some e) ?w3)))"
        by (rule prefix_order.trans [rotated])
      then have "prefix (trace w) (trace (snd (retryLoop env p maxTokens (attempt + 1) (Some e) ?w3)))"
        using append_prefixD by blast
      with le Inl show ?thesis
        by (simp add: retryLoop_fail_step Let_def)
    qed
  qed
qed

lemma call_first_fetch:
  "prefix (trace w @ [Fetch p maxTokens]) (trace (snd (callAzureOpenAI env p maxTokens w)))
   \<and> fetches w < fetches (snd (callAzureOpenAI env p maxTokens w))"
proof (cases "attemptResult env (fetch env (fetches w))")
  case (Inr v)
  then show ?thesis by (simp add: call_ok_first)
next
  case (Inl e)
  let ?w3 = "emit (SetTimeout 1000) (emit (WarnAttemptFailed (Suc 0) e) (emit (Fetch p maxTokens) (w\<lparr>fetches := Suc (fetches w)\<rparr>)))"
  have eq: "callAzureOpenAI env p maxTokens w = retryLoop env p maxTokens (Suc (Suc 0)) (Some e) ?w3"
    using Inl by (simp add: callAzureOpenAI_def retryLoop_fail_step maxRetries_def Let_def)
  have "prefix (trace ?w3) (trace (snd (retryLoop env p maxTokens (Suc (Suc 0)) (Some e) ?w3)))"
    by (rule retryLoop_trace_prefix)
  moreover have "prefix (trace w @ [Fetch p maxTokens]) (trace ?w3)"
    by (simp add: emit_def)
  ultimately have "prefix (trace w @ [Fetch p maxTokens]) (trace (snd (retryLoop env p maxTokens (Suc (Suc 0)) (Some e) ?w3)))"
    by (rule prefix_order.trans [rotated])
  moreover have "fetches ?w3 \<le> fetches (snd (retryLoop env p maxTokens (Suc (Suc 0)) (Some e) ?w3))"
    by (rule retryLoop_fetches_mono)
  ultimately show ?thesis by (simp add: eq emit_def)
qed

lemma emit_fetches [simp]: "fetches (emit ev w) = fetches w"
  by (simp add: emit_def)

lemma searchSongs_world:
  "\<exists>evs. snd (searchSongs env query w) =
      (snd (callAzureOpenAI env (SearchPrompt query) 2000 (configurationCheck env w)))
        \<lparr>trace := trace (snd (callAzureOpenAI env (SearchPrompt query) 2000 (configurationCheck env w))) @ evs\<rparr>"
proof -
  obtain r w2 where c: "callAzureOpenAI env (SearchPrompt query) 2000 (configurationCheck env w) = (r, w2)"
    by (cases "callAzureOpenAI env (SearchPrompt query) 2000 (configurationCheck env w)")
  have "\<exists>evs. snd (searchSongs env query w) = w2\<lparr>trace := trace w2 @ evs\<rparr>"
  proof (cases r)
    case (Inl e)
    with c have "snd (searchSongs env query w) = w2\<lparr>trace := trace w2 @ [ConsoleError ''Error searching songs with Azure OpenAI:'' e]\<rparr>"
      by (simp add: searchSongs_def searchSongs_try_def emit_def)
    then show ?thesis by blast
  next
    case (Inr response)
    show ?thesis
    proof (cases "\<exists>items. response = JArr items")
      case False
      then have "snd (searchSongs env query w) = w2\<lparr>trace := trace w2 @ []\<rparr>"
        using c Inr by (cases response) (simp_all add: searchSongs_def searchSongs_try_def)
      then show ?thesis by blast
    next
      case True
      then obtain items where i: "response = JArr items" by blast
      show ?thesis
      proof (cases "mapE (toSongInfo env) items")
        case (Inl e)
        with c Inr i have "snd (searchSongs env query w) = w2\<lparr>trace := trace w2 @ [ConsoleError ''Error searching songs with Azure OpenAI:'' e]\<rparr>"
          by (simp add: searchSongs_def searchSongs_try_def emit_def)
        then show ?thesis by blast
      next
        case (Inr result)
        with c \<open>r = Inr response\<close> i have "snd (searchSongs env query w) = w2\<lparr>trace := trace w2 @ [ConsoleLog response]\<rparr>"
          by (simp add: searchSongs_def searchSongs_try_def emit_def)
        then show ?thesis by blast
      qed
    qed
  qed
  with c show ?thesis by simp
qed

lemma searchSongs_unconfigured_fetches:
  assumes "keyNotConfigured env"
  shows "fetches w < fetches (snd (searchSongs env query w))
     \<and> prefix (trace w @ [ConsoleWarn ''Azure OpenAI API key not configured'',
                          Alert ''Warning'' ''Azure OpenAI API key not configured'',
                          Fetch (SearchPrompt query) 2000])
          (trace (snd (searchSongs env query w)))"
proof -
  let ?w1 = "configurationCheck env w"
  let ?w2 = "snd (callAzureOpenAI env (SearchPrompt query) 2000 ?w1)"
  obtain evs where e: "snd (searchSongs env query w) = ?w2\<lparr>trace := trace ?w2 @ evs\<rparr>"
    using searchSongs_world by blast
  have w1: "trace ?w1 = trace w @ [ConsoleWarn ''Azure OpenAI API key not configured'',
                          Alert ''Warning'' ''Azure OpenAI API key not configured'']"
    "fetches ?w1 = fetches w"
    using assms by (simp_all add: configurationCheck_def emit_def)
  from call_first_fetch [of ?w1 "SearchPrompt query" 2000 env] w1
  have "prefix (trace w @ [ConsoleWarn ''Azure OpenAI API key not configured'',
                          Alert ''Warning'' ''Azure OpenAI API key not configured'',
                          Fetch (SearchPrompt query) 2000]) (trace ?w2)"
    and "fetches w < fetches ?w2"
    by simp_all
  then show ?thesis
    by (simp add: e prefix_prefix)
qed

lemma searchSongs_alt_unconfigured:
  assumes "keyNotConfigured_alt env"
  shows "searchSongs_alt env query w =
           (getMockSongSearchResults_alt env query,
            w\<lparr>trace := trace w @ [ConsoleWarn ''Azure OpenAI API key not configured, using mock data'']\<rparr>)"
proof -
  obtain songs where "getMockSongSearchResults_alt env query = Inr songs"
    using getMock_alt_defined by blast
  with assms show ?thesis
    by (simp add: searchSongs_alt_def searchSongs_alt_try_def emit_def)
qed

text \<open>
  C5. With no key in the process environment the key holds its placeholder. The run of
  \<^verbatim>\<open>searchSongs\<close> with no network shows what the service then does: it logs the warning
  and raises the alert, and it goes on to the completion call, with three requests,
  three more warnings and two waits, before the fallback result is returned from the
  \<^verbatim>\<open>catch\<close> block. The other version of the service returns the fallback result after one
  warning and without a request.
\<close>

theorem searchSongs_unconfigured_key_run:
  "EXPO_PUBLIC_AZURE_OPENAI_API_KEY offlineEnv = None
   \<and> AZURE_OPENAI_API_KEY offlineEnv = placeholderKey
   \<and> searchSongs offlineEnv ''perfect'' startWorld =
       (Inr (Some (take 1 mockSongs)),
        \<lparr>fetches = 3,
         trace =
           [ConsoleWarn ''Azure OpenAI API key not configured'',
            Alert ''Warning'' ''Azure OpenAI API key not configured'',
            Fetch (SearchPrompt ''perfect'') 2000, WarnAttemptFailed 1 NetworkError, SetTimeout 1000,
            Fetch (SearchPrompt ''perfect'') 2000, WarnAttemptFailed 2 NetworkError, SetTimeout 2000,
            Fetch (SearchPrompt ''perfect'') 2000, WarnAttemptFailed 3 NetworkError,
            ConsoleError ''Error searching songs with Azure OpenAI:'' NetworkError]\<rparr>)
   \<and> searchSongs_alt offlineEnv ''perfect'' startWorld =
       (Inr (take 1 mockSongs_alt),
        \<lparr>fetches = 0,
         trace = [ConsoleWarn ''Azure OpenAI API key not configured, using mock data'']\<rparr>)"
proof -
  have k: "EXPO_PUBLIC_AZURE_OPENAI_API_KEY offlineEnv = None"
    by (simp add: offlineEnv_def)
  then have k': "AZURE_OPENAI_API_KEY offlineEnv = placeholderKey" "keyNotConfigured_alt offlineEnv"
    by (simp_all add: AZURE_OPENAI_API_KEY_def keyNotConfigured_alt_def)
  have a: "searchSongs offlineEnv ''perfect'' startWorld =
       (Inr (Some (take 1 mockSongs)),
        \<lparr>fetches = 3,
         trace =
           [ConsoleWarn ''Azure OpenAI API key not configured'',
            Alert ''Warning'' ''Azure OpenAI API key not configured'',
            Fetch (SearchPrompt ''perfect'') 2000, WarnAttemptFailed 1 NetworkError, SetTimeout 1000,
            Fetch (SearchPrompt ''perfect'') 2000, WarnAttemptFailed 2 NetworkError, SetTimeout 2000,
            Fetch (SearchPrompt ''perfect'') 2000, WarnAttemptFailed 3 NetworkError,
            ConsoleError ''Error searching songs with Azure OpenAI:'' NetworkError]\<rparr>)"
    by (simp add: searchSongs_def offline_search_try offline_mock_perfect bindE_def emit_def)
  have lower: "toLowerCase offlineEnv = asciiLower" by (simp add: offlineEnv_def)
  have b: "searchSongs_alt offlineEnv ''perfect'' startWorld =
       (Inr (take 1 mockSongs_alt),
        \<lparr>fetches = 0,
         trace = [ConsoleWarn ''Azure OpenAI API key not configured, using mock data'']\<rparr>)"
    by (simp add: searchSongs_alt_unconfigured [OF k'(2)] alt_mock_perfect [OF lower] startWorld_def)
  from k k' a b show ?thesis by blast
qed

lemma toSongInfo_Inr:
  assumes "toSongInfo env song = Inr s"
  shows "\<not> nullish song
     \<and> title s = readProp song ''title''
     \<and> artist s = readProp song ''artist''
     \<and> SongInfo.duration s = orElse (readProp song ''duration'') (JNum 180)"
  using assms
  by (auto simp: toSongInfo_def getProp_def bindE_def encodeE_def split: if_splits option.splits)

text \<open>
  C8 (amended). The duration of a candidate is the item's duration whenever that is
  truthy, in particular any number other than zero, negative ones included; it is 180
  when the item has no duration, or \<^verbatim>\<open>null\<close>, or zero.
\<close>

theorem toSongInfo_duration:
  assumes "toSongInfo env song = Inr s"
  shows "SongInfo.duration s = orElse (readProp song ''duration'') (JNum 180)
     \<and> (\<forall>d. readProp song ''duration'' = JNum d \<and> d \<noteq> 0 \<longrightarrow> SongInfo.duration s = JNum d)
     \<and> (readProp song ''duration'' = JUndefined \<or> readProp song ''duration'' = JNull
          \<or> readProp song ''duration'' = JNum 0 \<longrightarrow> SongInfo.duration s = JNum 180)"
  using toSongInfo_Inr [OF assms] by (auto simp: orElse_def)

lemma encode_examples:
  "encodeKnown (JStr ''Perfect'') = Some ''Perfect''"
  "encodeKnown (JStr ''Ed Sheeran'') = Some ''Ed%20Sheeran''"
  "encodeKnown JUndefined = Some ''undefined''"
  by (simp_all add: encodeKnown_def percentEncode_def unreserved_def hexDigit_def)

lemma offline_encode: "encodeURIComponent offlineEnv = encodeKnown"
  by (simp add: offlineEnv_def)

lemma scripted_encode: "encodeURIComponent (scriptedEnv rs) = encodeKnown"
  by (simp add: scriptedEnv_def offlineEnv_def)

lemma toSongInfo_example:
  assumes "encodeURIComponent env = encodeKnown"
  shows "toSongInfo env (JObj ((''title'', JStr ''Perfect'') # (''artist'', JStr ''Ed Sheeran'') # rest)) =
     Inr \<lparr>title = JStr ''Perfect'',
          artist = JStr ''Ed Sheeran'',
          duration = orElse (readProp (JObj ((''title'', JStr ''Perfect'') # (''artist'', JStr ''Ed Sheeran'') # rest)) ''duration'') (JNum 180),
          thumbnail = ''https://via.placeholder.com/480x360/1e293b/white?text=Ed%20Sheeran+-+Perfect'',
          url = ''song://Ed%20Sheeran-Perfect'',
          album = readProp (JObj rest) ''album'',
          year = readProp (JObj rest) ''year'',
          genre = readProp (JObj rest) ''genre'',
          popularity = readProp (JObj rest) ''popularity'',
          description = readProp (JObj rest) ''description''\<rparr>"
  by (simp add: toSongInfo_def getProp_def bindE_def encodeE_def assms encode_examples)

theorem toSongInfo_duration_witness:
  "toSongInfo offlineEnv
      (JObj [(''title'', JStr ''Perfect''), (''artist'', JStr ''Ed Sheeran''), (''duration'', JNum 263)]) =
     Inr \<lparr>title = JStr ''Perfect'',
          artist = JStr ''Ed Sheeran'',
          duration = JNum 263,
          thumbnail = ''https://via.placeholder.com/480x360/1e293b/white?text=Ed%20Sheeran+-+Perfect'',
          url = ''song://Ed%20Sheeran-Perfect'',
          album = JUndefined, year = JUndefined, genre = JUndefined,
          popularity = JUndefined, description = JUndefined\<rparr>
   \<and> toSongInfo offlineEnv
      (JObj [(''title'', JStr ''Perfect''), (''artist'', JStr ''Ed Sheeran''), (''duration'', JNum 0)]) =
     Inr \<lparr>title = JStr ''Perfect'',
          artist = JStr ''Ed Sheeran'',
          duration = JNum 180,
          thumbnail = ''https://via.placeholder.com/480x360/1e293b/white?text=Ed%20Sheeran+-+Perfect'',
          url = ''song://Ed%20Sheeran-Perfect'',
          album = JUndefined, year = JUndefined, genre = JUndefined,
          popularity = JUndefined, description = JUndefined\<rparr>"
proof -
  let ?a = "JObj [(''title'', JStr ''Perfect''), (''artist'', JStr ''Ed Sheeran''), (''duration'', JNum 263)]"
  let ?b = "JObj [(''title'', JStr ''Perfect''), (''artist'', JStr ''Ed Sheeran''), (''duration'', JNum 0)]"
  obtain s where s: "toSongInfo offlineEnv ?a = Inr s"
    by (simp add: toSongInfo_example [OF offline_encode])
  obtain t where t: "toSongInfo offlineEnv ?b = Inr t"
    by (simp add: toSongInfo_example [OF offline_encode])
  have da: "readProp ?a ''duration'' = JNum 263 \<and> (263::rat) \<noteq> 0" by simp
  have db: "readProp ?b ''duration'' = JNum 0" by simp
  from toSongInfo_duration [OF s] da have "SongInfo.duration s = JNum 263" by blast
  moreover from toSongInfo_duration [OF t] db have "SongInfo.duration t = JNum 180" by blast
  ultimately show ?thesis
    using s t by (simp add: toSongInfo_example [OF offline_encode] orElse_def)
qed

text \<open>A negative duration is not replaced by 180.\<close>

theorem toSongInfo_negative_duration_kept:
  "toSongInfo offlineEnv
      (JObj [(''title'', JStr ''Perfect''), (''artist'', JStr ''Ed Sheeran''), (''duration'', JNum (- 5))]) =
     Inr \<lparr>title = JStr ''Perfect'',
          artist = JStr ''Ed Sheeran'',
          duration = JNum (- 5),
          thumbnail = ''https://via.placeholder.com/480x360/1e293b/white?text=Ed%20Sheeran+-+Perfect'',
          url = ''song://Ed%20Sheeran-Perfect'',
          album = JUndefined, year = JUndefined, genre = JUndefined,
          popularity = JUndefined, description = JUndefined\<rparr>
   \<and> (- 5 :: rat) \<le> 0 \<and> JNum (- 5) \<noteq> JNum 180"
  by (simp add: toSongInfo_example [OF offline_encode] orElse_def)

subsection \<open>Titles and artists\<close>

lemma mockSongs_named:
  "list_all (\<lambda>s. nonEmptyString (title s) \<and> nonEmptyString (artist s)) mockSongs"
  "list_all (\<lambda>s. nonEmptyString (title s) \<and> nonEmptyString (artist s)) mockSongs_alt"
  by (simp_all add: mockSongs_def mockSongs_alt_def)

text \<open>
  C9 (amended). Every candidate of the fallback path, in both versions, has a non-empty
  title and a non-empty artist. A candidate of the model path has the title and the
  artist of the model's item, as they are.
\<close>

theorem search_candidates_named:
  "(\<forall>songs. getMockSongSearchResults env query = Inr songs \<longrightarrow>
      list_all (\<lambda>s. nonEmptyString (title s) \<and> nonEmptyString (artist s)) songs)
   \<and> (\<forall>songs. getMockSongSearchResults_alt env query = Inr songs \<longrightarrow>
      list_all (\<lambda>s. nonEmptyString (title s) \<and> nonEmptyString (artist s)) songs)
   \<and> (\<forall>item s. toSongInfo env item = Inr s \<longrightarrow>
        title s = readProp item ''title'' \<and> artist s = readProp item ''artist'')"
proof -
  obtain a where a: "getMockSongSearchResults env query = Inr a" "set a \<subseteq> set mockSongs"
    using getMock_defined by blast
  obtain b where b: "getMockSongSearchResults_alt env query = Inr b" "set b \<subseteq> set mockSongs_alt"
    using getMock_alt_defined by blast
  from a(2) mockSongs_named(1)
  have "list_all (\<lambda>s. nonEmptyString (title s) \<and> nonEmptyString (artist s)) a"
    unfolding list_all_iff by blast
  moreover from b(2) mockSongs_named(2)
  have "list_all (\<lambda>s. nonEmptyString (title s) \<and> nonEmptyString (artist s)) b"
    unfolding list_all_iff by blast
  ultimately show ?thesis
    using a(1) b(1) toSongInfo_Inr by auto
qed

theorem search_candidates_named_witness:
  "getMockSongSearchResults offlineEnv ''perfect'' = Inr (take 1 mockSongs)
   \<and> list_all (\<lambda>s. nonEmptyString (title s) \<and> nonEmptyString (artist s)) (take 1 mockSongs)
   \<and> getMockSongSearchResults_alt offlineEnv ''perfect'' = Inr (take 1 mockSongs_alt)
   \<and> list_all (\<lambda>s. nonEmptyString (title s) \<and> nonEmptyString (artist s)) (take 1 mockSongs_alt)
   \<and> toSongInfo offlineEnv (JObj [(''title'', JStr ''Perfect''), (''artist'', JStr ''Ed Sheeran'')]) =
       Inr \<lparr>title = JStr ''Perfect'',
            artist = JStr ''Ed Sheeran'',
            duration = JNum 180,
            thumbnail = ''https://via.placeholder.com/480x360/1e293b/white?text=Ed%20Sheeran+-+Perfect'',
            url = ''song://Ed%20Sheeran-Perfect'',
            album = JUndefined, year = JUndefined, genre = JUndefined,
            popularity = JUndefined, description = JUndefined\<rparr>"
proof -
  have lower: "toLowerCase offlineEnv = asciiLower" by (simp add: offlineEnv_def)
  note a = offline_mock_perfect
  note b = alt_mock_perfect [OF lower]
  have c: "toSongInfo offlineEnv (JObj [(''title'', JStr ''Perfect''), (''artist'', JStr ''Ed Sheeran'')]) =
       Inr \<lparr>title = JStr ''Perfect'',
            artist = JStr ''Ed Sheeran'',
            duration = JNum 180,
            thumbnail = ''https://via.placeholder.com/480x360/1e293b/white?text=Ed%20Sheeran+-+Perfect'',
            url = ''song://Ed%20Sheeran-Perfect'',
            album = JUndefined, year = JUndefined, genre = JUndefined,
            popularity = JUndefined, description = JUndefined\<rparr>"
    by (simp add: toSongInfo_example [OF offline_encode] orElse_def)
  from search_candidates_named [of offlineEnv "''perfect''"] a b c show ?thesis by blast
qed

text \<open>A reply \<^verbatim>\<open>[{}]\<close> gives a candidate without title and artist.\<close>

theorem searchSongs_unnamed_candidate:
  "searchSongs (scriptedEnv [chatReply ''[{}]'']) ''perfect'' startWorld =
     (Inr (Some [\<lparr>title = JUndefined,
                  artist = JUndefined,
                  duration = JNum 180,
                  thumbnail = ''https://via.placeholder.com/480x360/1e293b/white?text=undefined+-+undefined'',
                  url = ''song://undefined-undefined'',
                  album = JUndefined, year = JUndefined, genre = JUndefined,
                  popularity = JUndefined, description = JUndefined\<rparr>]),
      \<lparr>fetches = 1,
       trace = [Fetch (SearchPrompt ''perfect'') 2000, ConsoleLog (JArr [JObj []])]\<rparr>)
   \<and> \<not> nonEmptyString JUndefined"
proof -
  let ?env = "scriptedEnv [chatReply ''[{}]'']"
  have f: "fetch ?env (fetches startWorld) = chatReply ''[{}]''"
    by (simp add: scriptedEnv_def startWorld_def)
  have "attemptResult ?env (fetch ?env (fetches startWorld)) = Inr (JArr [JObj []])"
    by (simp add: f attempt_chatReply clean_braces scripted_parse parseKnown_def)
  then have c: "callAzureOpenAI ?env (SearchPrompt ''perfect'') 2000 (configurationCheck ?env startWorld)
     = (Inr (JArr [JObj []]), \<lparr>fetches = 1, trace = [Fetch (SearchPrompt ''perfect'') 2000]\<rparr>)"
    by (simp add: configurationCheck_def scripted_configured call_ok_first startWorld_def)
  have t: "toSongInfo ?env (JObj []) =
     Inr \<lparr>title = JUndefined,
                  artist = JUndefined,
                  duration = JNum 180,
                  thumbnail = ''https://via.placeholder.com/480x360/1e293b/white?text=undefined+-+undefined'',
                  url = ''song://undefined-undefined'',
                  album = JUndefined, year = JUndefined, genre = JUndefined,
                  popularity = JUndefined, description = JUndefined\<rparr>"
    by (simp add: toSongInfo_def getProp_def bindE_def encodeE_def scripted_encode encode_examples orElse_def)
  show ?thesis
    by (simp add: searchSongs_def searchSongs_try_def c t bindE_def emit_def)
qed


section \<open>Properties of the chord analysis\<close>

lemma mapE_total:
  assumes "\<And>x. x \<in> set xs \<Longrightarrow> f x = Inr (g x)"
  shows "mapE f xs = Inr (map g xs)"
  using assms by (induction xs) (simp_all add: bindE_def)

lemma normalizeChord_total:
  assumes "\<not> nullish c"
  shows "normalizeChord c =
     Inr \<lparr>time = orElse (readProp c ''time'') (JNum 0),
          chord = orElse (readProp c ''chord'') (JStr ''C''),
          duration = orElse (readProp c ''duration'') (JNum 4),
          lyricLine = orElse (readProp c ''lyricLine'') (JStr []),
          section = orElse (readProp c ''section'') (JStr ''verse'')\<rparr>"
  using assms by (simp add: normalizeChord_def getProp_def bindE_def)

lemma mapE_normalizeChord_null:
  assumes "list_ex nullish items"
  shows "mapE normalizeChord items = Inl TypeError"
  using assms
proof (induction items)
  case Nil
  then show ?case by simp
next
  case (Cons c cs)
  show ?case
  proof (cases "nullish c")
    case True
    then show ?thesis by (simp add: normalizeChord_def getProp_def bindE_def)
  next
    case False
    with Cons show ?thesis by (simp add: normalizeChord_total bindE_def)
  qed
qed

lemma normalizeChordAnalysis_null_item:
  assumes "truthy response" and "readProp response ''chords'' = JArr items" and "list_ex nullish items"
  shows "normalizeChordAnalysis response = Inl TypeError"
proof -
  have n: "\<not> nullish response" using assms(1) by (cases response) simp_all
  show ?thesis
    by (simp add: normalizeChordAnalysis_def getProp_def n assms(2) orElse_def
        mapE_normalizeChord_null [OF assms(3)] bindE_def)
qed

text \<open>
  C3 (amended). An empty chord item \<^verbatim>\<open>{}\<close> normalizes to time 0, chord C, duration 4, an
  empty lyric line and section verse. An item that is not \<^verbatim>\<open>null\<close> never makes the
  normalizer throw: each of its fields that is absent or falsy gets its default and
  each truthy field is kept as it is. When the \<^verbatim>\<open>chords\<close> of the reply are an array of
  such items, or are absent or falsy (and then count as the empty array), the normalizer
  returns an analysis with one chord per item and with every absent or falsy top-level
  field replaced by its default; absent or falsy \<^verbatim>\<open>chords\<close> give the empty sequence.
  On a \<^verbatim>\<open>null\<close> item, and on \<^verbatim>\<open>chords\<close> that are truthy and not an array, it throws a
  TypeError.
\<close>

theorem normalizeChordAnalysis_defaults:
  "normalizeChord (JObj []) =
     Inr \<lparr>time = JNum 0, chord = JStr ''C'', duration = JNum 4, lyricLine = JStr [],
          section = JStr ''verse''\<rparr>
   \<and> (\<forall>c. \<not> nullish c \<longrightarrow>
        normalizeChord c =
          Inr \<lparr>time = orElse (readProp c ''time'') (JNum 0),
               chord = orElse (readProp c ''chord'') (JStr ''C''),
               duration = orElse (readProp c ''duration'') (JNum 4),
               lyricLine = orElse (readProp c ''lyricLine'') (JStr []),
               section = orElse (readProp c ''section'') (JStr ''verse'')\<rparr>)
   \<and> (\<forall>response items.
         truthy response
         \<and> orElse (readProp response ''chords'') (JArr []) = JArr items
         \<and> list_all (\<lambda>c. \<not> nullish c) items \<longrightarrow>
         (\<exists>cs. mapE normalizeChord items = Inr cs \<and> length cs = length items \<and>
            normalizeChordAnalysis response =
              Inr \<lparr>chords = cs,
                   key = orElse (readProp response ''key'') (JStr ''C Major''),
                   tempo = orElse (readProp response ''tempo'') (JNum 120),
                   difficulty = orElse (readProp response ''difficulty'') (JStr ''Beginner''),
                   capo = orElse (readProp response ''capo'') (JNum 0),
                   tuning = orElse (readProp response ''tuning'') (JStr ''Standard (E-A-D-G-B-E)''),
                   strummingPattern = orElse (readProp response ''strummingPattern'') (JStr ''D-D-U-U-D-U''),
                   timeSignature = orElse (readProp response ''timeSignature'') (JStr ''4/4''),
                   sections = orElse (readProp response ''sections'')
                                (JObj [(''verse'', strs [''C'', ''G'', ''Am'', ''F''])]),
                   songStructure = orElse (readProp response ''songStructure'') (strs [''verse'', ''chorus'']),
                   alternativeCapo = readProp response ''alternativeCapo''\<rparr>))
   \<and> (\<forall>response. truthy response \<and> \<not> truthy (readProp response ''chords'') \<longrightarrow>
         (\<exists>a. normalizeChordAnalysis response = Inr a \<and> chords a = []))
   \<and> (\<forall>c. nullish c \<longrightarrow> normalizeChord c = Inl TypeError)
   \<and> (\<forall>response items. truthy response \<and> readProp response ''chords'' = JArr items
         \<and> list_ex nullish items \<longrightarrow>
         normalizeChordAnalysis response = Inl TypeError)
   \<and> (\<forall>response. truthy response \<and> truthy (readProp response ''chords'')
         \<and> (\<forall>items. readProp response ''chords'' \<noteq> JArr items) \<longrightarrow>
         normalizeChordAnalysis response = Inl TypeError)"
proof -
  have 1: "normalizeChord (JObj []) =
     Inr \<lparr>time = JNum 0, chord = JStr ''C'', duration = JNum 4, lyricLine = JStr [],
          section = JStr ''verse''\<rparr>"
    by (simp add: normalizeChord_total orElse_def)
  have 3: "\<exists>cs. mapE normalizeChord items = Inr cs \<and> length cs = length items \<and>
            normalizeChordAnalysis response =
              Inr \<lparr>chords = cs,
                   key = orElse (readProp response ''key'') (JStr ''C Major''),
                   tempo = orElse (readProp response ''tempo'') (JNum 120),
                   difficulty = orElse (readProp response ''difficulty'') (JStr ''Beginner''),
                   capo = orElse (readProp response ''capo'') (JNum 0),
                   tuning = orElse (readProp response ''tuning'') (JStr ''Standard (E-A-D-G-B-E)''),
                   strummingPattern = orElse (readProp response ''strummingPattern'') (JStr ''D-D-U-U-D-U''),
                   timeSignature = orElse (readProp response ''timeSignature'') (JStr ''4/4''),
                   sections = orElse (readProp response ''sections'')
                                (JObj [(''verse'', strs [''C'', ''G'', ''Am'', ''F''])]),
                   songStructure = orElse (readProp response ''songStructure'') (strs [''verse'', ''chorus'']),
                   alternativeCapo = readProp response ''alternativeCapo''\<rparr>"
    if h: "truthy response" "orElse (readProp response ''chords'') (JArr []) = JArr items"
          "list_all (\<lambda>c. \<not> nullish c) items" for response items
  proof -
    let ?g = "\<lambda>c. \<lparr>time = orElse (readProp c ''time'') (JNum 0),
          chord = orElse (readProp c ''chord'') (JStr ''C''),
          duration = orElse (readProp c ''duration'') (JNum 4),
          lyricLine = orElse (readProp c ''lyricLine'') (JStr []),
          section = orElse (readProp c ''section'') (JStr ''verse'')\<rparr>"
    have m: "mapE normalizeChord items = Inr (map ?g items)"
      using h(3) by (intro mapE_total normalizeChord_total) (simp add: list_all_iff)
    have n: "\<not> nullish response" using h(1) by (cases response) simp_all
    show ?thesis
      by (simp add: normalizeChordAnalysis_def getProp_def n h(2) m bindE_def)
  qed
  have 4: "\<exists>a. normalizeChordAnalysis response = Inr a \<and> chords a = []"
    if h: "truthy response" "\<not> truthy (readProp response ''chords'')" for response
  proof -
    have n: "\<not> nullish response" using h(1) by (cases response) simp_all
    show ?thesis
      using h(2) by (simp add: normalizeChordAnalysis_def getProp_def n orElse_def bindE_def)
  qed
  have 5: "normalizeChord c = Inl TypeError" if "nullish c" for c
    using that by (simp add: normalizeChord_def getProp_def bindE_def)
  have 6: "normalizeChordAnalysis response = Inl TypeError"
    if h: "truthy response" "truthy (readProp response ''chords'')"
          "\<forall>items. readProp response ''chords'' \<noteq> JArr items" for response
  proof -
    have n: "\<not> nullish response" using h(1) by (cases response) simp_all
    show ?thesis
      using h(2,3)
      by (cases "readProp response ''chords''")
         (simp_all add: normalizeChordAnalysis_def getProp_def n orElse_def bindE_def)
  qed
  from 1 normalizeChord_total 3 4 5 6 normalizeChordAnalysis_null_item show ?thesis by blast
qed

theorem normalizeChordAnalysis_defaults_witness:
  "\<not> nullish (JObj [(''chord'', JStr ''Em''), (''time'', JNum 8)])
   \<and> truthy (JObj [(''chords'', JArr [JObj [], JObj [(''chord'', JStr ''Em''), (''time'', JNum 8)]]),
                  (''tempo'', JNum 90)])
   \<and> truthy (JObj [(''tempo'', JNum 90)])
   \<and> normalizeChord (JObj [(''chord'', JStr ''Em''), (''time'', JNum 8)]) =
       Inr \<lparr>time = JNum 8, chord = JStr ''Em'', duration = JNum 4, lyricLine = JStr [],
            section = JStr ''verse''\<rparr>
   \<and> orElse (readProp (JObj [(''chords'', JArr [JObj [], JObj [(''chord'', JStr ''Em''), (''time'', JNum 8)]]),
                              (''tempo'', JNum 90)]) ''chords'') (JArr [])
       = JArr [JObj [], JObj [(''chord'', JStr ''Em''), (''time'', JNum 8)]]
   \<and> list_all (\<lambda>c. \<not> nullish c) [JObj [], JObj [(''chord'', JStr ''Em''), (''time'', JNum 8)]]
   \<and> normalizeChordAnalysis
         (JObj [(''chords'', JArr [JObj [], JObj [(''chord'', JStr ''Em''), (''time'', JNum 8)]]),
                (''tempo'', JNum 90)]) =
       Inr \<lparr>chords =
              [\<lparr>time = JNum 0, chord = JStr ''C'', duration = JNum 4, lyricLine = JStr [],
                section = JStr ''verse''\<rparr>,
               \<lparr>time = JNum 8, chord = JStr ''Em'', duration = JNum 4, lyricLine = JStr [],
                section = JStr ''verse''\<rparr>],
            key = JStr ''C Major'',
            tempo = JNum 90,
            difficulty = JStr ''Beginner'',
            capo = JNum 0,
            tuning = JStr ''Standard (E-A-D-G-B-E)'',
            strummingPattern = JStr ''D-D-U-U-D-U'',
            timeSignature = JStr ''4/4'',
            sections = JObj [(''verse'', strs [''C'', ''G'', ''Am'', ''F''])],
            songStructure = strs [''verse'', ''chorus''],
            alternativeCapo = JUndefined\<rparr>
   \<and> \<not> truthy (readProp (JObj [(''tempo'', JNum 90)]) ''chords'')
   \<and> map_sum id chords (normalizeChordAnalysis (JObj [(''tempo'', JNum 90)])) = Inr []
   \<and> nullish JNull
   \<and> normalizeChord JNull = Inl TypeError
   \<and> truthy (JObj [(''chords'', JArr [JObj [], JNull])])
   \<and> readProp (JObj [(''chords'', JArr [JObj [], JNull])]) ''chords'' = JArr [JObj [], JNull]
   \<and> list_ex nullish [JObj [], JNull]
   \<and> normalizeChordAnalysis (JObj [(''chords'', JArr [JObj [], JNull])]) = Inl TypeError
   \<and> truthy (readProp (JObj [(''chords'', JStr ''Em G D C'')]) ''chords'')
   \<and> (\<forall>items. readProp (JObj [(''chords'', JStr ''Em G D C'')]) ''chords'' \<noteq> JArr items)
   \<and> normalizeChordAnalysis (JObj [(''chords'', JStr ''Em G D C'')]) = Inl TypeError"
proof -
  let ?c = "JObj [(''chord'', JStr ''Em''), (''time'', JNum 8)]"
  let ?r = "JObj [(''chords'', JArr [JObj [], ?c]), (''tempo'', JNum 90)]"
  let ?q = "JObj [(''tempo'', JNum 90)]"
  note T = normalizeChordAnalysis_defaults
  have n: "\<not> nullish ?c" by simp
  from T n have c: "normalizeChord ?c =
       Inr \<lparr>time = JNum 8, chord = JStr ''Em'', duration = JNum 4, lyricLine = JStr [],
            section = JStr ''verse''\<rparr>"
    by (simp add: orElse_def)
  from T have e: "normalizeChord (JObj []) =
     Inr \<lparr>time = JNum 0, chord = JStr ''C'', duration = JNum 4, lyricLine = JStr [],
          section = JStr ''verse''\<rparr>"
    by blast
  have h1: "orElse (readProp ?r ''chords'') (JArr []) = JArr [JObj [], ?c]"
    by (simp add: orElse_def)
  have h2: "list_all (\<lambda>c. \<not> nullish c) [JObj [], ?c]" by simp
  have m: "mapE normalizeChord [JObj [], ?c] =
     Inr [\<lparr>time = JNum 0, chord = JStr ''C'', duration = JNum 4, lyricLine = JStr [],
                section = JStr ''verse''\<rparr>,
               \<lparr>time = JNum 8, chord = JStr ''Em'', duration = JNum 4, lyricLine = JStr [],
                section = JStr ''verse''\<rparr>]"
    by (simp add: c e bindE_def)
  have t: "truthy ?r" "truthy ?q" by simp_all
  from T t(1) h1 h2 obtain cs where cs: "mapE normalizeChord [JObj [], ?c] = Inr cs"
     "normalizeChordAnalysis ?r =
              Inr \<lparr>chords = cs,
                   key = orElse (readProp ?r ''key'') (JStr ''C Major''),
                   tempo = orElse (readProp ?r ''tempo'') (JNum 120),
                   difficulty = orElse (readProp ?r ''difficulty'') (JStr ''Beginner''),
                   capo = orElse (readProp ?r ''capo'') (JNum 0),
                   tuning = orElse (readProp ?r ''tuning'') (JStr ''Standard (E-A-D-G-B-E)''),
                   strummingPattern = orElse (readProp ?r ''strummingPattern'') (JStr ''D-D-U-U-D-U''),
                   timeSignature = orElse (readProp ?r ''timeSignature'') (JStr ''4/4''),
                   sections = orElse (readProp ?r ''sections'')
                                (JObj [(''verse'', strs [''C'', ''G'', ''Am'', ''F''])]),
                   songStructure = orElse (readProp ?r ''songStructure'') (strs [''verse'', ''chorus'']),
                   alternativeCapo = readProp ?r ''alternativeCapo''\<rparr>"
    by blast
  from cs m have r: "normalizeChordAnalysis ?r =
       Inr \<lparr>chords =
              [\<lparr>time = JNum 0, chord = JStr ''C'', duration = JNum 4, lyricLine = JStr [],
                section = JStr ''verse''\<rparr>,
               \<lparr>time = JNum 8, chord = JStr ''Em'', duration = JNum 4, lyricLine = JStr [],
                section = JStr ''verse''\<rparr>],
            key = JStr ''C Major'',
            tempo = JNum 90,
            difficulty = JStr ''Beginner'',
            capo = JNum 0,
            tuning = JStr ''Standard (E-A-D-G-B-E)'',
            strummingPattern = JStr ''D-D-U-U-D-U'',
            timeSignature = JStr ''4/4'',
            sections = JObj [(''verse'', strs [''C'', ''G'', ''Am'', ''F''])],
            songStructure = strs [''verse'', ''chorus''],
            alternativeCapo = JUndefined\<rparr>"
    by (simp add: orElse_def)
  have h3: "\<not> truthy (readProp ?q ''chords'')" by simp
  from T t(2) h3 obtain a where "normalizeChordAnalysis ?q = Inr a" "chords a = []" by blast
  then have q: "map_sum id chords (normalizeChordAnalysis ?q) = Inr []" by simp
  have h5: "nullish JNull" by simp
  from T h5 have r5: "normalizeChord JNull = Inl TypeError" by blast
  let ?s = "JObj [(''chords'', JStr ''Em G D C'')]"
  have h6: "truthy ?s" "truthy (readProp ?s ''chords'')" "\<forall>items. readProp ?s ''chords'' \<noteq> JArr items"
    by simp_all
  from T h6 have r6: "normalizeChordAnalysis ?s = Inl TypeError" by blast
  let ?u = "JObj [(''chords'', JArr [JObj [], JNull])]"
  have h7: "truthy ?u" "readProp ?u ''chords'' = JArr [JObj [], JNull]" "list_ex nullish [JObj [], JNull]"
    by simp_all
  from T h7 have r7: "normalizeChordAnalysis ?u = Inl TypeError" by blast
  from n t c h1 h2 r h3 q h5 r5 h6 r6 h7 r7 show ?thesis by blast
qed

text \<open>
  The normalizer throws when \<^verbatim>\<open>chords\<close> is truthy and not an array, and when an item is
  \<^verbatim>\<open>null\<close>; a field of the wrong type that is truthy is kept.
\<close>

theorem normalizeChordAnalysis_raises:
  "normalizeChordAnalysis (JObj [(''chords'', JNum 5)]) = Inl TypeError
   \<and> normalizeChordAnalysis (JObj [(''chords'', JArr [JNull])]) = Inl TypeError
   \<and> normalizeChord (JObj [(''time'', JStr ''soon'')]) =
       Inr \<lparr>time = JStr ''soon'', chord = JStr ''C'', duration = JNum 4, lyricLine = JStr [],
            section = JStr ''verse''\<rparr>"
  by (simp add: normalizeChordAnalysis_def normalizeChord_def getProp_def orElse_def bindE_def)

section \<open>Properties of the chord fallback\<close>

lemma mock_analysis_string_title:
  assumes "title song = JStr t"
  shows "getEnhancedMockChordAnalysis env song =
     Inr (if titleContains env t ''perfect'' then perfectProgression
          else if titleContains env t ''wonderwall'' then wonderwallProgression
          else defaultProgression)"
  using assms
  by (simp add: getEnhancedMockChordAnalysis_def commonProgressions_def titleContains_def
      includesStr_sublist Let_def)

text \<open>
  C7 (amended). For a song whose title is a string the chord fallback depends on the
  title alone: a title that contains \<^verbatim>\<open>perfect\<close>, letter case ignored, gives the progression
  written for it; a title that contains \<^verbatim>\<open>wonderwall\<close> and not \<^verbatim>\<open>perfect\<close> gives the
  progression written for \<^verbatim>\<open>wonderwall\<close>; every other title gives the default progression,
  which is in C Major. Two songs with the same title get the same result.
\<close>

theorem getEnhancedMockChordAnalysis_selection:
  assumes "title song = JStr t"
  shows "(titleContains env t ''perfect'' \<longrightarrow>
            getEnhancedMockChordAnalysis env song = Inr perfectProgression)
     \<and> (\<not> titleContains env t ''perfect'' \<and> titleContains env t ''wonderwall'' \<longrightarrow>
            getEnhancedMockChordAnalysis env song = Inr wonderwallProgression)
     \<and> (\<not> titleContains env t ''perfect'' \<and> \<not> titleContains env t ''wonderwall'' \<longrightarrow>
            getEnhancedMockChordAnalysis env song = Inr defaultProgression)
     \<and> key defaultProgression = JStr ''C Major''
     \<and> (\<forall>other. title other = title song \<longrightarrow>
            getEnhancedMockChordAnalysis env other = getEnhancedMockChordAnalysis env song)"
proof -
  have "getEnhancedMockChordAnalysis env other = getEnhancedMockChordAnalysis env song"
    if "title other = title song" for other
    using that by (simp add: getEnhancedMockChordAnalysis_def)
  then show ?thesis
    using mock_analysis_string_title [OF assms, of env]
    by (simp add: defaultProgression_def)
qed

lemma lower_titles:
  "asciiLower ''Wonderwall'' = ''wonderwall''"
  "asciiLower ''Perfect'' = ''perfect''"
  "asciiLower ''Let It Be'' = ''let it be''"
  "asciiLower ''Perfect Wonderwall'' = ''perfect wonderwall''"
  by (simp_all add: asciiLower_def lowerChar_def isUpper_def)

lemma contains_examples:
  assumes "toLowerCase env = asciiLower"
  shows "\<not> titleContains env ''Wonderwall'' ''perfect''"
    and "titleContains env ''Wonderwall'' ''wonderwall''"
    and "titleContains env ''Perfect'' ''perfect''"
    and "\<not> titleContains env ''Let It Be'' ''perfect''"
    and "\<not> titleContains env ''Let It Be'' ''wonderwall''"
    and "titleContains env ''Perfect Wonderwall'' ''perfect''"
    and "titleContains env ''Perfect Wonderwall'' ''wonderwall''"
  by (simp_all add: titleContains_def assms lower_titles includesStr_sublist [symmetric])

lemma progressions_differ: "perfectProgression \<noteq> wonderwallProgression"
proof
  assume "perfectProgression = wonderwallProgression"
  then have "tempo perfectProgression = tempo wonderwallProgression" by simp
  then show False by (simp add: perfectProgression_def wonderwallProgression_def)
qed

theorem getEnhancedMockChordAnalysis_selection_witness:
  "title (songTitled ''Perfect'') = JStr ''Perfect''
   \<and> titleContains offlineEnv ''Perfect'' ''perfect''
   \<and> getEnhancedMockChordAnalysis offlineEnv (songTitled ''Perfect'') = Inr perfectProgression
   \<and> title (songTitled ''Wonderwall'') = JStr ''Wonderwall''
   \<and> \<not> titleContains offlineEnv ''Wonderwall'' ''perfect''
   \<and> titleContains offlineEnv ''Wonderwall'' ''wonderwall''
   \<and> getEnhancedMockChordAnalysis offlineEnv (songTitled ''Wonderwall'') = Inr wonderwallProgression
   \<and> title (songTitled ''Let It Be'') = JStr ''Let It Be''
   \<and> \<not> titleContains offlineEnv ''Let It Be'' ''perfect''
   \<and> \<not> titleContains offlineEnv ''Let It Be'' ''wonderwall''
   \<and> getEnhancedMockChordAnalysis offlineEnv (songTitled ''Let It Be'') = Inr defaultProgression
   \<and> title ((songTitled ''Wonderwall'')\<lparr>artist := JStr ''Ryan Adams''\<rparr>) = title (songTitled ''Wonderwall'')
   \<and> getEnhancedMockChordAnalysis offlineEnv ((songTitled ''Wonderwall'')\<lparr>artist := JStr ''Ryan Adams''\<rparr>)
       = getEnhancedMockChordAnalysis offlineEnv (songTitled ''Wonderwall'')"
proof -
  have l: "toLowerCase offlineEnv = asciiLower" by (simp add: offlineEnv_def)
  note c = contains_examples [OF l]
  have t: "title (songTitled ''Perfect'') = JStr ''Perfect''"
    "title (songTitled ''Wonderwall'') = JStr ''Wonderwall''"
    "title (songTitled ''Let It Be'') = JStr ''Let It Be''"
    "title ((songTitled ''Wonderwall'')\<lparr>artist := JStr ''Ryan Adams''\<rparr>) = title (songTitled ''Wonderwall'')"
    by (simp_all add: songTitled_def)
  from getEnhancedMockChordAnalysis_selection [OF t(1), of offlineEnv]
       getEnhancedMockChordAnalysis_selection [OF t(2), of offlineEnv]
       getEnhancedMockChordAnalysis_selection [OF t(3), of offlineEnv]
       c t
  show ?thesis by blast
qed

text \<open>A title that contains both keywords gets the progression of the first one.\<close>

theorem getEnhancedMockChordAnalysis_first_keyword_wins:
  "title (songTitled ''Perfect Wonderwall'') = JStr ''Perfect Wonderwall''
   \<and> titleContains offlineEnv ''Perfect Wonderwall'' ''wonderwall''
   \<and> getEnhancedMockChordAnalysis offlineEnv (songTitled ''Perfect Wonderwall'') = Inr perfectProgression
   \<and> perfectProgression \<noteq> wonderwallProgression"
proof -
  have l: "toLowerCase offlineEnv = asciiLower" by (simp add: offlineEnv_def)
  have t: "title (songTitled ''Perfect Wonderwall'') = JStr ''Perfect Wonderwall''"
    by (simp add: songTitled_def)
  show ?thesis
    using contains_examples [OF l] t progressions_differ
    by (simp add: mock_analysis_string_title [OF t])
qed


section \<open>Properties of analyzeSongByName\<close>

lemma withSongInfo_simps:
  "ChordAnalysis.truncate (withSongInfo song ca) = ca"
  "songInfo (withSongInfo song ca) = song"
  "chords (withSongInfo song ca) = chords ca"
  "key (withSongInfo song ca) = key ca"
  by (simp_all add: withSongInfo_def ChordAnalysis.truncate_def ChordAnalysis.extend_def
      ChordAnalysisResult.fields_def)

lemma analyzeChords_call_fails:
  assumes "callAzureOpenAI env (ChordPrompt (title song) (artist song)) 2500 w = (Inl e, w1)"
  shows "analyzeChordsWithAzureAI env song w =
           (getEnhancedMockChordAnalysis env song,
            emit (ConsoleError ''Error analyzing chords with Azure OpenAI:'' e) w1)"
  using assms by (simp add: analyzeChordsWithAzureAI_def analyzeChords_try_def bindE_def)

lemma generateTutorial_truthy:
  assumes "callAzureOpenAI env (tutorialPrompt song ca) 3000 w = (Inr r, w2)" and "truthy r"
  shows "generateTutorialWithAzureAI env song ca w = (Inr (normalizeTutorial env song ca r), w2)"
  using assms by (simp add: generateTutorialWithAzureAI_def generateTutorial_try_def bindE_def)

lemma generateTutorial_falsy:
  assumes "callAzureOpenAI env (tutorialPrompt song ca) 3000 w = (Inr r, w2)" and "\<not> truthy r"
  shows "generateTutorialWithAzureAI env song ca w =
           (getEnhancedMockTutorial env song ca,
            emit (ConsoleError ''Error generating tutorial with Azure OpenAI:''
                    (Error ''Invalid tutorial response'')) w2)"
  using assms by (simp add: generateTutorialWithAzureAI_def generateTutorial_try_def bindE_def)

text \<open>
  C2 (amended). For a song for which the chord fallback is defined (its title is a
  string), when the chord completion call fails and the tutorial completion call then
  returns a truthy value, \<^verbatim>\<open>analyzeSongByName\<close> returns a result whose analysis is the
  song with the chord fallback for its title and whose tutorial is built from the
  returned value; nothing is logged after the tutorial call.
\<close>

theorem analyzeSongByName_chord_fallback:
  assumes "callAzureOpenAI env (ChordPrompt (title song) (artist song)) 2500 w = (Inl e, w1)"
      and "getEnhancedMockChordAnalysis env song = Inr fallback"
      and "callAzureOpenAI env (tutorialPrompt song fallback) 3000
             (emit (ConsoleError ''Error analyzing chords with Azure OpenAI:'' e) w1) = (Inr r, w2)"
      and "truthy r"
  shows "analyzeSongByName env song w =
           (Inr \<lparr>analysis = withSongInfo song fallback,
                 tutorial = normalizeTutorial env song fallback r\<rparr>, w2)
     \<and> ChordAnalysis.truncate (withSongInfo song fallback) = fallback
     \<and> songInfo (withSongInfo song fallback) = song"
  using assms
  by (simp add: analyzeSongByName_def analyzeChords_call_fails generateTutorial_truthy withSongInfo_simps)


lemma chordsDown_first_call:
  assumes "fetches w = 0"
  shows "callAzureOpenAI (scriptedEnv (chordsDownReplies content)) p maxTokens w =
           (Inl NetworkError, \<lparr>fetches = 3, trace = trace w @ offlineTrace p maxTokens\<rparr>)"
proof -
  let ?env = "scriptedEnv (chordsDownReplies content)"
  have "attemptResult ?env (fetch ?env (fetches w)) = Inl NetworkError"
       "attemptResult ?env (fetch ?env (Suc (fetches w))) = Inl NetworkError"
       "attemptResult ?env (fetch ?env (Suc (Suc (fetches w)))) = Inl NetworkError"
    using assms by (simp_all add: scriptedEnv_def chordsDownReplies_def attempt_rejected)
  from call_fails_thrice [OF this] assms show ?thesis
    by (simp add: offlineTrace_def)
qed

lemma chordsDown_second_call:
  assumes "fetches w = 3"
      and "attemptResult (scriptedEnv (chordsDownReplies content)) (chatReply content) = Inr v"
  shows "callAzureOpenAI (scriptedEnv (chordsDownReplies content)) p maxTokens w =
           (Inr v, \<lparr>fetches = 4, trace = trace w @ [Fetch p maxTokens]\<rparr>)"
proof -
  let ?env = "scriptedEnv (chordsDownReplies content)"
  have "fetch ?env (fetches w) = chatReply content"
    using assms(1) by (simp add: scriptedEnv_def chordsDownReplies_def)
  with assms(2) have "attemptResult ?env (fetch ?env (fetches w)) = Inr v" by simp
  from call_ok_first [OF this] assms(1) show ?thesis by simp
qed

lemma clean_overviewDocument:
  "trim env = asciiTrim \<Longrightarrow> cleanContent env overviewDocument = overviewDocument"
  by (simp add: cleanContent_def overviewDocument_def fence_def asciiTrim_def isSpace_def)

lemma attempt_overviewDocument:
  "attemptResult (scriptedEnv rs) (chatReply overviewDocument) =
     Inr (JObj [(''overview'', JStr ''Play it slowly'')])"
proof -
  have "overviewDocument = CHR ''{'' # tl overviewDocument"
    by (simp add: overviewDocument_def)
  then have "attemptResult (scriptedEnv rs) (chatReply overviewDocument) =
     (case JSON_parse (scriptedEnv rs) (cleanContent (scriptedEnv rs) overviewDocument) of
        None \<Rightarrow> Inl SyntaxError | Some v \<Rightarrow> Inr v)"
    using attempt_chatReply [of "scriptedEnv rs" "CHR ''{''" "tl overviewDocument"] by simp
  also have "\<dots> = Inr (JObj [(''overview'', JStr ''Play it slowly'')])"
    by (simp add: clean_overviewDocument scripted_parse) (simp add: parseKnown_def overviewDocument_def)
  finally show ?thesis .
qed

lemma attempt_null:
  "attemptResult (scriptedEnv rs) (chatReply ''null'') = Inr JNull"
  by (simp add: attempt_chatReply clean_braces scripted_parse parseKnown_def)

lemma wonderwall_fallback:
  "toLowerCase env = asciiLower \<Longrightarrow>
   getEnhancedMockChordAnalysis env (songTitled ''Wonderwall'') = Inr wonderwallProgression"
proof -
  assume l: "toLowerCase env = asciiLower"
  have t: "title (songTitled ''Wonderwall'') = JStr ''Wonderwall''"
    by (simp add: songTitled_def)
  show ?thesis
    using contains_examples(1,2) [OF l] by (simp add: mock_analysis_string_title [OF t])
qed

lemma mockTutorial_defined:
  assumes "ChordAnalysis.difficulty ca = JStr d"
  shows "\<not> isl (getEnhancedMockTutorial env song ca)"
  using assms by (simp add: getEnhancedMockTutorial_def Let_def)

theorem analyzeSongByName_chord_fallback_witness:
  "callAzureOpenAI (scriptedEnv (chordsDownReplies overviewDocument))
       (ChordPrompt (title (songTitled ''Wonderwall'')) (artist (songTitled ''Wonderwall''))) 2500 startWorld
     = (Inl NetworkError,
        \<lparr>fetches = 3,
         trace = offlineTrace (ChordPrompt (JStr ''Wonderwall'') (JStr ''Oasis'')) 2500\<rparr>)
   \<and> getEnhancedMockChordAnalysis (scriptedEnv (chordsDownReplies overviewDocument))
        (songTitled ''Wonderwall'') = Inr wonderwallProgression
   \<and> callAzureOpenAI (scriptedEnv (chordsDownReplies overviewDocument))
        (tutorialPrompt (songTitled ''Wonderwall'') wonderwallProgression) 3000
        (emit (ConsoleError ''Error analyzing chords with Azure OpenAI:'' NetworkError)
           \<lparr>fetches = 3,
            trace = offlineTrace (ChordPrompt (JStr ''Wonderwall'') (JStr ''Oasis'')) 2500\<rparr>)
     = (Inr (JObj [(''overview'', JStr ''Play it slowly'')]),
        \<lparr>fetches = 4,
         trace = offlineTrace (ChordPrompt (JStr ''Wonderwall'') (JStr ''Oasis'')) 2500
           @ [ConsoleError ''Error analyzing chords with Azure OpenAI:'' NetworkError,
              Fetch (tutorialPrompt (songTitled ''Wonderwall'') wonderwallProgression) 3000]\<rparr>)
   \<and> truthy (JObj [(''overview'', JStr ''Play it slowly'')])
   \<and> analyzeSongByName (scriptedEnv (chordsDownReplies overviewDocument))
        (songTitled ''Wonderwall'') startWorld
     = (Inr \<lparr>analysis = withSongInfo (songTitled ''Wonderwall'') wonderwallProgression,
             tutorial =
               \<lparr>overview = JStr ''Play it slowly'',
                difficulty = JStr ''Beginner'',
                estimatedTime = JNum 45,
                steps = JArr [],
                practiceNotes = strs [''Practice regularly''],
                requirements = strs [''Basic chord knowledge''],
                chordDiagrams = JObj [],
                playingTips = JObj [],
                performanceTips = strs [''Have fun!'']\<rparr>\<rparr>,
        \<lparr>fetches = 4,
         trace = offlineTrace (ChordPrompt (JStr ''Wonderwall'') (JStr ''Oasis'')) 2500
           @ [ConsoleError ''Error analyzing chords with Azure OpenAI:'' NetworkError,
              Fetch (tutorialPrompt (songTitled ''Wonderwall'') wonderwallProgression) 3000]\<rparr>)"
proof -
  let ?env = "scriptedEnv (chordsDownReplies overviewDocument)"
  let ?song = "songTitled ''Wonderwall''"
  let ?w1 = "\<lparr>fetches = 3, trace = offlineTrace (ChordPrompt (JStr ''Wonderwall'') (JStr ''Oasis'')) 2500\<rparr>"
  let ?r = "JObj [(''overview'', JStr ''Play it slowly'')]"
  let ?w2 = "\<lparr>fetches = 4,
         trace = offlineTrace (ChordPrompt (JStr ''Wonderwall'') (JStr ''Oasis'')) 2500
           @ [ConsoleError ''Error analyzing chords with Azure OpenAI:'' NetworkError,
              Fetch (tutorialPrompt ?song wonderwallProgression) 3000]\<rparr>"
  have h1: "callAzureOpenAI ?env (ChordPrompt (title ?song) (artist ?song)) 2500 startWorld
     = (Inl NetworkError, ?w1)"
    by (simp add: chordsDown_first_call startWorld_def) (simp add: songTitled_def)
  have h2: "getEnhancedMockChordAnalysis ?env ?song = Inr wonderwallProgression"
    by (rule wonderwall_fallback) (rule scripted_lower)
  have h3: "callAzureOpenAI ?env (tutorialPrompt ?song wonderwallProgression) 3000
        (emit (ConsoleError ''Error analyzing chords with Azure OpenAI:'' NetworkError) ?w1)
     = (Inr ?r, ?w2)"
    by (simp add: chordsDown_second_call [OF _ attempt_overviewDocument] emit_def)
  have h4: "truthy ?r" by simp
  have n: "normalizeTutorial ?env ?song wonderwallProgression ?r =
               \<lparr>overview = JStr ''Play it slowly'',
                difficulty = JStr ''Beginner'',
                estimatedTime = JNum 45,
                steps = JArr [],
                practiceNotes = strs [''Practice regularly''],
                requirements = strs [''Basic chord knowledge''],
                chordDiagrams = JObj [],
                playingTips = JObj [],
                performanceTips = strs [''Have fun!'']\<rparr>"
    by (simp add: normalizeTutorial_def orElse_def wonderwallProgression_def)
  from analyzeSongByName_chord_fallback [OF h1 h2 h3 h4] h1 h2 h3 h4 n
  show ?thesis by simp
qed

text \<open>
  When the tutorial call succeeds with the reply \<^verbatim>\<open>null\<close>, the tutorial of the result is
  the tutorial fallback.
\<close>

theorem analyzeSongByName_null_tutorial_reply:
  "callAzureOpenAI (scriptedEnv (chordsDownReplies ''null''))
        (tutorialPrompt (songTitled ''Wonderwall'') wonderwallProgression) 3000
        (emit (ConsoleError ''Error analyzing chords with Azure OpenAI:'' NetworkError)
           \<lparr>fetches = 3,
            trace = offlineTrace (ChordPrompt (JStr ''Wonderwall'') (JStr ''Oasis'')) 2500\<rparr>)
     = (Inr JNull,
        \<lparr>fetches = 4,
         trace = offlineTrace (ChordPrompt (JStr ''Wonderwall'') (JStr ''Oasis'')) 2500
           @ [ConsoleError ''Error analyzing chords with Azure OpenAI:'' NetworkError,
              Fetch (tutorialPrompt (songTitled ''Wonderwall'') wonderwallProgression) 3000]\<rparr>)
   \<and> map_sum id tutorial
        (fst (analyzeSongByName (scriptedEnv (chordsDownReplies ''null'')) (songTitled ''Wonderwall'') startWorld))
     = getEnhancedMockTutorial (scriptedEnv (chordsDownReplies ''null'')) (songTitled ''Wonderwall'')
         wonderwallProgression
   \<and> \<not> isl (getEnhancedMockTutorial (scriptedEnv (chordsDownReplies ''null'')) (songTitled ''Wonderwall'')
         wonderwallProgression)
   \<and> trace (snd (analyzeSongByName (scriptedEnv (chordsDownReplies ''null'')) (songTitled ''Wonderwall'') startWorld))
     = offlineTrace (ChordPrompt (JStr ''Wonderwall'') (JStr ''Oasis'')) 2500
         @ [ConsoleError ''Error analyzing chords with Azure OpenAI:'' NetworkError,
            Fetch (tutorialPrompt (songTitled ''Wonderwall'') wonderwallProgression) 3000,
            ConsoleError ''Error generating tutorial with Azure OpenAI:'' (Error ''Invalid tutorial response'')]"
proof -
  let ?env = "scriptedEnv (chordsDownReplies ''null'')"
  let ?song = "songTitled ''Wonderwall''"
  let ?w1 = "\<lparr>fetches = 3, trace = offlineTrace (ChordPrompt (JStr ''Wonderwall'') (JStr ''Oasis'')) 2500\<rparr>"
  let ?w2 = "\<lparr>fetches = 4,
         trace = offlineTrace (ChordPrompt (JStr ''Wonderwall'') (JStr ''Oasis'')) 2500
           @ [ConsoleError ''Error analyzing chords with Azure OpenAI:'' NetworkError,
              Fetch (tutorialPrompt ?song wonderwallProgression) 3000]\<rparr>"
  have h1: "callAzureOpenAI ?env (ChordPrompt (title ?song) (artist ?song)) 2500 startWorld
     = (Inl NetworkError, ?w1)"
    by (simp add: chordsDown_first_call startWorld_def) (simp add: songTitled_def)
  have h2: "getEnhancedMockChordAnalysis ?env ?song = Inr wonderwallProgression"
    by (rule wonderwall_fallback) (rule scripted_lower)
  have h3: "callAzureOpenAI ?env (tutorialPrompt ?song wonderwallProgression) 3000
        (emit (ConsoleError ''Error analyzing chords with Azure OpenAI:'' NetworkError) ?w1)
     = (Inr JNull, ?w2)"
    by (simp add: chordsDown_second_call [OF _ attempt_null] emit_def)
  have d: "\<not> isl (getEnhancedMockTutorial ?env ?song wonderwallProgression)"
    by (rule mockTutorial_defined [of _ "''Beginner''"]) (simp add: wonderwallProgression_def)
  then obtain t where t: "getEnhancedMockTutorial ?env ?song wonderwallProgression = Inr t"
    by (cases "getEnhancedMockTutorial ?env ?song wonderwallProgression") simp_all
  have a: "analyzeSongByName ?env ?song startWorld =
     (Inr \<lparr>analysis = withSongInfo ?song wonderwallProgression, tutorial = t\<rparr>,
      emit (ConsoleError ''Error generating tutorial with Azure OpenAI:'' (Error ''Invalid tutorial response'')) ?w2)"
    using generateTutorial_falsy [OF h3]
    by (simp add: analyzeSongByName_def analyzeChords_call_fails [OF h1] h2 t)
  from h3 d show ?thesis
    by (simp add: a t emit_def)
qed


end
